theory Spec2Isabelle
  imports Complex_Main
begin

section \<open>R7 delay service: the delay model (Backend/models/delay.js)\<close>

text \<open>
  JavaScript strings are carried as \<^typ>\<open>string\<close>; the two umlauts of the static stop
  names are the Latin-1 code units 0xFC and 0xF6. The case mappings
  \<open>String.prototype.toUpperCase\<close> and \<open>String.prototype.toLowerCase\<close> belong to the
  JavaScript runtime, not to the repository: the functions that call them take them as the
  parameters \<open>toUpperCase\<close> and \<open>toLowerCase\<close>.
  Numbers that the code only uses as integers (seconds, minutes, millisecond time values,
  stop orders) are \<^typ>\<open>int\<close>.
\<close>

subsection \<open>Runtime helpers\<close>

text \<open>\<open>s.includes(t)\<close>: \<open>t\<close> occurs in \<open>s\<close> as a contiguous substring.\<close>

fun starts_with :: "string \<Rightarrow> string \<Rightarrow> bool" where
  "starts_with s [] = True"
| "starts_with [] (c # t) = False"
| "starts_with (a # s) (c # t) = (a = c \<and> starts_with s t)"

fun str_includes :: "string \<Rightarrow> string \<Rightarrow> bool" where
  "str_includes [] t = (t = [])"
| "str_includes (a # s) t = (starts_with (a # s) t \<or> str_includes s t)"

text \<open>
  \<open>Math.round(a / n)\<close> for an integer \<open>a\<close> and a positive integer \<open>n\<close>: the nearest
  integer, a tie going up (towards plus infinity). For the seconds, milliseconds and minute
  totals of this service the double quotient is exact at a tie and otherwise far nearer to
  the exact quotient than to a tie, so the rounding is that of the exact quotient.
\<close>

definition Math_round_div :: "int \<Rightarrow> int \<Rightarrow> int" where
  "Math_round_div a n = (2 * a + n) div (2 * n)"

text \<open>\<open>a || b\<close> on nullable strings: the empty string, \<open>null\<close> and \<open>undefined\<close> are falsy.\<close>

definition or_str :: "string option \<Rightarrow> string option \<Rightarrow> string option" where
  "or_str a b = (case a of None \<Rightarrow> b | Some s \<Rightarrow> if s = [] then b else Some s)"

text \<open>\<open>a || 'lit'\<close> for a nullable string \<open>a\<close> and a string literal.\<close>

definition str_or_default :: "string option \<Rightarrow> string \<Rightarrow> string" where
  "str_or_default a d = (case a of None \<Rightarrow> d | Some s \<Rightarrow> if s = [] then d else s)"

text \<open>ASCII case mappings, on which the runtime's mappings agree for ASCII strings;
  they instantiate the parameters at concrete inputs.\<close>

definition ascii_upper_char :: "char \<Rightarrow> char" where
  "ascii_upper_char c =
     (case map_of (zip ''abcdefghijklmnopqrstuvwxyz'' ''ABCDEFGHIJKLMNOPQRSTUVWXYZ'') c of
        None \<Rightarrow> c | Some u \<Rightarrow> u)"

definition ascii_lower_char :: "char \<Rightarrow> char" where
  "ascii_lower_char c =
     (case map_of (zip ''ABCDEFGHIJKLMNOPQRSTUVWXYZ'' ''abcdefghijklmnopqrstuvwxyz'') c of
        None \<Rightarrow> c | Some l \<Rightarrow> l)"

definition ascii_upper :: "string \<Rightarrow> string" where
  "ascii_upper s = map ascii_upper_char s"

definition ascii_lower :: "string \<Rightarrow> string" where
  "ascii_lower s = map ascii_lower_char s"

subsection \<open>Status classification\<close>

definition getDelayStatus :: "int \<Rightarrow> string" where
  "getDelayStatus delayMinutes =
     (if delayMinutes \<le> 0 then ''on-time''
      else if delayMinutes \<le> 5 then ''slight-delay''
      else if delayMinutes \<le> 10 then ''delayed''
      else ''heavily-delayed'')"

text \<open>The severity order of the four delay statuses, least severe first.\<close>

definition severity :: "string \<Rightarrow> nat" where
  "severity s =
     (if s = ''on-time'' then 0
      else if s = ''slight-delay'' then 1
      else if s = ''delayed'' then 2
      else if s = ''heavily-delayed'' then 3
      else 4)"

subsection \<open>Upstream departures and the delay calculator\<close>

text \<open>
  \<open>new Date(s)\<close> of an upstream timestamp string: a time value in milliseconds since the
  epoch, or an Invalid Date when the string does not parse.
\<close>

datatype js_date = Time int | InvalidDate

record line =
  name :: "string option"
  product :: "string option"

text \<open>
  A departure object of the upstream client. \<open>plannedWhen\<close> and \<open>when\<close> are given
  as the dates their strings parse to (\<open>None\<close>: null, absent or empty); \<open>delay\<close> is in
  seconds (\<open>None\<close>: null or absent); an absent \<open>cancelled\<close> is \<open>False\<close>; \<open>remarks\<close> holds
  the \<open>text\<close> of each remark.
\<close>

record departure =
  plannedWhen :: "js_date option"
  "when" :: "js_date option"
  delay :: "int option"
  cancelled :: bool
  platform :: "string option"
  plannedPlatform :: "string option"
  direction :: "string option"
  line :: "line option"
  remarks :: "string list option"

text \<open>The object \<open>calculateDelay\<close> returns. An ISO string is carried as its time value.\<close>

record delay_info =
  scheduledDeparture :: "int option"
  expectedDeparture :: "int option"
  delayMinutes :: int
  status :: string
  cancelled :: bool
  platform :: "string option"
  direction :: "string option"
  lineName :: string
  remarks :: "string list"

text \<open>\<open>d.toISOString()\<close> raises a RangeError on an Invalid Date.\<close>

fun toISOString :: "js_date \<Rightarrow> string + int" where
  "toISOString (Time t) = Inr t"
| "toISOString InvalidDate = Inl ''Invalid time value''"

text \<open>\<open>d ? d.toISOString() : null\<close>\<close>

fun toISOString_or_null :: "js_date option \<Rightarrow> string + int option" where
  "toISOString_or_null None = Inr None"
| "toISOString_or_null (Some d) =
     (case toISOString d of Inl e \<Rightarrow> Inl e | Inr t \<Rightarrow> Inr (Some t))"

text \<open>
  The variable \<open>delayMinutes\<close> of \<open>calculateDelay\<close> before it is clamped.
  \<open>if (departure.delay)\<close> tests truthiness: a delay of \<open>0\<close>, like \<open>null\<close>, takes the
  \<open>else if\<close> branch, which reads the two timestamps.
\<close>

definition minutesBetween :: "int option \<Rightarrow> int option \<Rightarrow> int" where
  "minutesBetween scheduledTime actualTime =
     (case (scheduledTime, actualTime) of
        (Some s, Some a) \<Rightarrow> Math_round_div (a - s) (1000 * 60)
      | _ \<Rightarrow> 0)"

definition unclampedMinutes :: "departure \<Rightarrow> int option \<Rightarrow> int option \<Rightarrow> int" where
  "unclampedMinutes dep scheduledTime actualTime =
     (case departure.delay dep of
        None \<Rightarrow> minutesBetween scheduledTime actualTime
      | Some d \<Rightarrow>
          if d \<noteq> 0 then Math_round_div d 60 else minutesBetween scheduledTime actualTime)"

text \<open>
  \<open>calculateDelay\<close>. The only operation of the function that can raise is \<open>toISOString\<close>,
  on the scheduled and then on the actual time; the minute count is computed before, without
  effect, so the model converts the two dates first and computes on the time values.
\<close>

definition calculateDelay :: "departure \<Rightarrow> string + delay_info" where
  "calculateDelay dep =
     (case toISOString_or_null (departure.plannedWhen dep) of
        Inl e \<Rightarrow> Inl e
      | Inr scheduledTime \<Rightarrow>
     (case toISOString_or_null (departure.when dep) of
        Inl e \<Rightarrow> Inl e
      | Inr actualTime \<Rightarrow>
         Inr \<lparr> delay_info.scheduledDeparture = scheduledTime,
               delay_info.expectedDeparture =
                 (case actualTime of Some a \<Rightarrow> Some a | None \<Rightarrow> scheduledTime),
               delay_info.delayMinutes = max 0 (unclampedMinutes dep scheduledTime actualTime),
               delay_info.status = getDelayStatus (unclampedMinutes dep scheduledTime actualTime),
               delay_info.cancelled = (departure.cancelled dep \<or> False),
               delay_info.platform =
                 or_str (or_str (departure.platform dep) (departure.plannedPlatform dep)) None,
               delay_info.direction = or_str (departure.direction dep) None,
               delay_info.lineName =
                 str_or_default
                   (case departure.line dep of None \<Rightarrow> None | Some l \<Rightarrow> line.name l) ''R7'',
               delay_info.remarks =
                 (case departure.remarks dep of None \<Rightarrow> [] | Some rs \<Rightarrow> rs) \<rparr>))"

subsection \<open>Static stops\<close>

record stop =
  id :: string
  name :: string
  searchName :: string
  hafasId :: "string option"
  order :: int

definition R7_STOPS :: "stop list" where
  "R7_STOPS =
     [\<lparr> stop.id = ''1'', stop.name = ''Zweibr'' @ [CHR 0xFC] @ ''cken Hauptbahnhof'',
        stop.searchName = ''Zweibr'' @ [CHR 0xFC] @ ''cken Hbf'',
        stop.hafasId = Some ''8000472'', stop.order = 1 \<rparr>,
      \<lparr> stop.id = ''2'', stop.name = ''Zweibr'' @ [CHR 0xFC] @ ''cken Rosengarten'',
        stop.searchName = ''Zweibr'' @ [CHR 0xFC] @ ''cken Rosengarten'',
        stop.hafasId = None, stop.order = 2 \<rparr>,
      \<lparr> stop.id = ''3'', stop.name = ''Ein'' @ [CHR 0xF6] @ ''d'',
        stop.searchName = ''Ein'' @ [CHR 0xF6] @ ''d'',
        stop.hafasId = None, stop.order = 3 \<rparr>,
      \<lparr> stop.id = ''4'', stop.name = ''Ingweiler'', stop.searchName = ''Ingweiler'',
        stop.hafasId = None, stop.order = 4 \<rparr>,
      \<lparr> stop.id = ''5'', stop.name = ''Bierbach'', stop.searchName = ''Bierbach'',
        stop.hafasId = None, stop.order = 5 \<rparr>,
      \<lparr> stop.id = ''6'', stop.name = ''Beeden'', stop.searchName = ''Beeden'',
        stop.hafasId = None, stop.order = 6 \<rparr>,
      \<lparr> stop.id = ''7'', stop.name = ''Homburg (Saar) Hauptbahnhof'',
        stop.searchName = ''Homburg Hbf'',
        stop.hafasId = Some ''8000176'', stop.order = 7 \<rparr>]"

subsection \<open>The upstream client, the runtime and the module state\<close>

type_synonym location = "real \<times> real"

text \<open>A location object of the upstream directory; also the shape of a search result.\<close>

record station =
  id :: string
  name :: string
  type :: string
  location :: "location option"

text \<open>
  The upstream client. Both calls may be rejected (\<open>Inl\<close>, with the message of the error)
  and may answer differently at each call: their first argument is the number of upstream
  calls made before. \<open>locations c k query results\<close>, \<open>departures c k stationId duration
  results\<close>.
\<close>

record hafas =
  locations :: "nat \<Rightarrow> string \<Rightarrow> nat \<Rightarrow> string + station list"
  departures :: "nat \<Rightarrow> string \<Rightarrow> int \<Rightarrow> nat \<Rightarrow> string + departure list"

text \<open>
  What the module reads from its surroundings: the client created at load time (\<open>None\<close>
  when \<open>createClient\<close> raised), the case mappings of strings, the successive results of
  \<open>Math.random()\<close>, the value of \<open>new Date()\<close> and the offset of local time from UTC, in
  milliseconds, taken as constant over the next hours.
\<close>

record runtime =
  hafasClient :: "hafas option"
  toUpperCase :: "string \<Rightarrow> string"
  toLowerCase :: "string \<Rightarrow> string"
  random :: "nat \<Rightarrow> real"
  now :: int
  tzOffset :: int

text \<open>The module's variables, and the count of upstream calls made so far.\<close>

record state =
  stationCache :: "string \<rightharpoonup> station"
  apiAvailable :: "bool option"
  calls :: nat

definition initial_state :: state where
  "initial_state = \<lparr> stationCache = Map.empty, apiAvailable = None, calls = 0 \<rparr>"

definition called :: "state \<Rightarrow> state" where
  "called s = s\<lparr> calls := Suc (calls s) \<rparr>"

definition checkApiAvailability :: "runtime \<Rightarrow> state \<Rightarrow> bool \<times> state" where
  "checkApiAvailability rt s =
     (case apiAvailable s of
        Some b \<Rightarrow> (b, s)
      | None \<Rightarrow>
         (case hafasClient rt of
            None \<Rightarrow> (False, s\<lparr> apiAvailable := Some False \<rparr>)
          | Some c \<Rightarrow>
             (case locations c (calls s) (''Saarbr'' @ [CHR 0xFC] @ ''cken'') 1 of
                Inr r \<Rightarrow> (True, called (s\<lparr> apiAvailable := Some True \<rparr>))
              | Inl e \<Rightarrow> (False, called (s\<lparr> apiAvailable := Some False \<rparr>)))))"

text \<open>
  \<open>findStation\<close>. A call on a missing client is a TypeError inside the \<open>try\<close>, caught like
  a rejection of the upstream.
\<close>

definition findStation :: "runtime \<Rightarrow> string \<Rightarrow> state \<Rightarrow> station option \<times> state" where
  "findStation rt nm s =
     (case checkApiAvailability rt s of (available, s1) \<Rightarrow>
        if \<not> available then (None, s1)
        else (case stationCache s1 nm of
                Some cached \<Rightarrow> (Some cached, s1)
              | None \<Rightarrow>
                 (case hafasClient rt of
                    None \<Rightarrow> (None, s1)
                  | Some c \<Rightarrow>
                     (case locations c (calls s1) nm 5 of
                        Inl e \<Rightarrow> (None, called s1)
                      | Inr results \<Rightarrow>
                         (case results of
                            [] \<Rightarrow> (None, called s1)
                          | first # others \<Rightarrow>
                             (let found =
                                    (case find (\<lambda>r. station.type r = ''stop'') results of
                                       Some r \<Rightarrow> r | None \<Rightarrow> first)
                              in (Some found,
                                  (called s1)\<lparr> stationCache :=
                                     (stationCache s1)(nm \<mapsto> found) \<rparr>)))))))"

text \<open>The line label the filter reads: \<open>dep.line?.name || dep.line?.product || ''\<close>.\<close>

definition lineLabel :: "departure \<Rightarrow> string" where
  "lineLabel dep =
     (case departure.line dep of
        None \<Rightarrow> ''''
      | Some l \<Rightarrow> str_or_default (or_str (line.name l) (line.product l)) '''')"

text \<open>The callback of the line filter in \<open>getDeparturesForStation\<close>.\<close>

definition isR7 :: "runtime \<Rightarrow> departure \<Rightarrow> bool" where
  "isR7 rt dep =
     (let lineName = toUpperCase rt (lineLabel dep)
      in str_includes lineName ''R7'' \<or> str_includes lineName ''R 7'' \<or>
         lineName = ''RE7'' \<or> lineName = ''RB7'')"

definition getDeparturesForStation ::
    "runtime \<Rightarrow> string \<Rightarrow> int \<Rightarrow> state \<Rightarrow> departure list \<times> state" where
  "getDeparturesForStation rt stationId duration s =
     (case checkApiAvailability rt s of (available, s1) \<Rightarrow>
        if \<not> available then ([], s1)
        else (case hafasClient rt of
                None \<Rightarrow> ([], s1)
              | Some c \<Rightarrow>
                 (case departures c (calls s1) stationId duration 50 of
                    Inl e \<Rightarrow> ([], called s1)
                  | Inr ds \<Rightarrow> (filter (isR7 rt) ds, called s1))))"

subsection \<open>Snapshots\<close>

text \<open>The fields of a snapshot that carries data; \<open>isSimulated\<close> is \<open>False\<close> where the
  object has no such field.\<close>

record stop_data =
  hafasId :: "string option"
  hafasName :: string
  location :: "location option"
  scheduledDeparture :: "int option"
  expectedArrival :: "int option"
  delayMinutes :: int
  status :: string
  cancelled :: bool
  platform :: "string option"
  direction :: "string option"
  lineName :: string
  remarks :: "string list"
  upcomingDepartures :: "delay_info list"
  isSimulated :: bool

text \<open>
  A snapshot has one of two shapes: the data fields, or an \<open>error\<close> message (with an empty
  \<open>departures\<close> list) and none of the data fields.
\<close>

datatype outcome = Data stop_data | Failed string

record snapshot =
  stopId :: string
  stopName :: string
  stopOrder :: int
  lastUpdated :: int
  body :: outcome

subsection \<open>Simulated data\<close>

definition baseDelay :: "real \<Rightarrow> int" where
  "baseDelay r = \<lfloor>r * 16\<rfloor>"

definition simulatedDelay :: "real \<Rightarrow> int" where
  "simulatedDelay r = (if baseDelay r < 5 then 0 else baseDelay r)"

text \<open>The next scheduled departure: the next full or half hour of local time.\<close>

definition nextDeparture :: "runtime \<Rightarrow> int" where
  "nextDeparture rt =
     (let localNow = now rt + tzOffset rt;
          minutes = (localNow div 60000) mod 60;
          nextHalfHour = (if minutes < 30 then 30 else 60)
      in localNow - localNow mod 3600000 + nextHalfHour * 60000 - tzOffset rt)"

text \<open>\<open>String(n)\<close> for a digit \<open>n\<close>.\<close>

definition digit_String :: "int \<Rightarrow> string" where
  "digit_String n = [char_of (48 + nat n)]"

text \<open>
  The callback of \<open>R7_STOPS.map\<close> in \<open>generateSimulatedData\<close>; \<open>i\<close> is the number of
  random draws made before, and the second component the number made after.
\<close>

definition simulateStop :: "runtime \<Rightarrow> stop \<Rightarrow> nat \<Rightarrow> snapshot \<times> nat" where
  "simulateStop rt stop i =
     (let delay = simulatedDelay (random rt i);
          expected = nextDeparture rt + delay * 60000;
          cancelled = (random rt (i + 1) < 5 / 100);
          direction = (if stop.order stop \<le> 3 then ''Homburg (Saar) Hbf''
                       else ''Zweibr'' @ [CHR 0xFC] @ ''cken Hbf'');
          terminus = (stop.order stop = 1 \<or> stop.order stop = 7)
      in (\<lparr> stopId = stop.id stop, stopName = stop.name stop, stopOrder = stop.order stop,
            lastUpdated = now rt,
            body = Data
              \<lparr> stop_data.hafasId = stop.hafasId stop,
                stop_data.hafasName = stop.name stop,
                stop_data.location = None,
                stop_data.scheduledDeparture = Some (nextDeparture rt),
                stop_data.expectedArrival = Some expected,
                stop_data.delayMinutes = (if cancelled then 0 else delay),
                stop_data.status = (if cancelled then ''cancelled'' else getDelayStatus delay),
                stop_data.cancelled = cancelled,
                stop_data.platform =
                  (if terminus then Some (digit_String (\<lfloor>random rt (i + 2) * 3\<rfloor> + 1))
                   else None),
                stop_data.direction = Some direction,
                stop_data.lineName = ''R7'',
                stop_data.remarks = [],
                stop_data.upcomingDepartures = [],
                stop_data.isSimulated = True \<rparr> \<rparr>,
          if terminus then i + 3 else i + 2))"

fun simulateStops :: "runtime \<Rightarrow> stop list \<Rightarrow> nat \<Rightarrow> snapshot list" where
  "simulateStops rt [] i = []"
| "simulateStops rt (stop # stops) i =
     (case simulateStop rt stop i of (snap, j) \<Rightarrow> snap # simulateStops rt stops j)"

definition generateSimulatedData :: "runtime \<Rightarrow> snapshot list" where
  "generateSimulatedData rt = simulateStops rt R7_STOPS 0"

subsection \<open>Real data\<close>

text \<open>\<open>departures.map(dep => calculateDelay(dep))\<close>: the first exception ends the map.\<close>

fun processDepartures :: "departure list \<Rightarrow> string + delay_info list" where
  "processDepartures [] = Inr []"
| "processDepartures (dep # deps) =
     (case calculateDelay dep of
        Inl e \<Rightarrow> Inl e
      | Inr d \<Rightarrow> (case processDepartures deps of Inl e \<Rightarrow> Inl e | Inr ds \<Rightarrow> Inr (d # ds)))"

text \<open>
  The snapshot pushed for a stop with departures data; the two places of
  \<open>fetchRealDelayData\<close> that build it differ in \<open>hafasId\<close>, \<open>hafasName\<close> and
  \<open>location\<close> only.
\<close>

definition dataSnapshot ::
    "runtime \<Rightarrow> stop \<Rightarrow> string option \<Rightarrow> string \<Rightarrow> location option \<Rightarrow> delay_info list \<Rightarrow> snapshot"
  where
  "dataSnapshot rt stop hid hname loc processedDepartures =
     (let next = (case processedDepartures of [] \<Rightarrow> None | d # ds \<Rightarrow> Some d)
      in \<lparr> stopId = stop.id stop, stopName = stop.name stop, stopOrder = stop.order stop,
           lastUpdated = now rt,
           body = Data
             \<lparr> stop_data.hafasId = hid,
               stop_data.hafasName = hname,
               stop_data.location = loc,
               stop_data.scheduledDeparture =
                 (case next of None \<Rightarrow> None | Some d \<Rightarrow> delay_info.scheduledDeparture d),
               stop_data.expectedArrival =
                 (case next of None \<Rightarrow> None | Some d \<Rightarrow> delay_info.expectedDeparture d),
               stop_data.delayMinutes =
                 (case next of None \<Rightarrow> 0 | Some d \<Rightarrow> delay_info.delayMinutes d),
               stop_data.status =
                 (case next of None \<Rightarrow> ''unknown''
                  | Some d \<Rightarrow> str_or_default (Some (delay_info.status d)) ''unknown''),
               stop_data.cancelled =
                 (case next of None \<Rightarrow> False | Some d \<Rightarrow> delay_info.cancelled d),
               stop_data.platform =
                 (case next of None \<Rightarrow> None | Some d \<Rightarrow> delay_info.platform d),
               stop_data.direction =
                 (case next of None \<Rightarrow> None | Some d \<Rightarrow> delay_info.direction d),
               stop_data.lineName =
                 (case next of None \<Rightarrow> ''R7''
                  | Some d \<Rightarrow> str_or_default (Some (delay_info.lineName d)) ''R7''),
               stop_data.remarks =
                 (case next of None \<Rightarrow> [] | Some d \<Rightarrow> delay_info.remarks d),
               stop_data.upcomingDepartures = take 5 processedDepartures,
               stop_data.isSimulated = False \<rparr> \<rparr>)"

definition errorSnapshot :: "runtime \<Rightarrow> stop \<Rightarrow> string \<Rightarrow> snapshot" where
  "errorSnapshot rt stop message =
     \<lparr> stopId = stop.id stop, stopName = stop.name stop, stopOrder = stop.order stop,
       lastUpdated = now rt, body = Failed message \<rparr>"

text \<open>
  One round of the loop of \<open>fetchRealDelayData\<close>: the snapshot it pushes. An exception of
  \<open>calculateDelay\<close> is caught by the \<open>try\<close> around the round.
\<close>

definition processStop :: "runtime \<Rightarrow> stop \<Rightarrow> state \<Rightarrow> snapshot \<times> state" where
  "processStop rt stop s =
     (case findStation rt (str_or_default (Some (stop.searchName stop)) (stop.name stop)) s of
        (None, s1) \<Rightarrow>
          (case stop.hafasId stop of
             None \<Rightarrow> (errorSnapshot rt stop ''Station not found in HAFAS'', s1)
           | Some hid \<Rightarrow>
              if hid = [] then (errorSnapshot rt stop ''Station not found in HAFAS'', s1)
              else (case getDeparturesForStation rt hid 120 s1 of (deps, s2) \<Rightarrow>
                      (case processDepartures deps of
                         Inl e \<Rightarrow> (errorSnapshot rt stop e, s2)
                       | Inr ds \<Rightarrow>
                          (dataSnapshot rt stop (stop.hafasId stop) (stop.name stop) None ds,
                           s2))))
      | (Some found, s1) \<Rightarrow>
          (case getDeparturesForStation rt (station.id found) 120 s1 of (deps, s2) \<Rightarrow>
             (case processDepartures deps of
                Inl e \<Rightarrow> (errorSnapshot rt stop e, s2)
              | Inr ds \<Rightarrow>
                 (dataSnapshot rt stop (Some (station.id found)) (station.name found)
                    (station.location found) ds,
                  s2))))"

text \<open>The loop over the stops; \<open>results\<close> is the array the rounds push to.\<close>

fun processStops ::
    "runtime \<Rightarrow> stop list \<Rightarrow> snapshot list \<Rightarrow> state \<Rightarrow> snapshot list \<times> state" where
  "processStops rt [] results s = (results, s)"
| "processStops rt (stop # stops) results s =
     (case processStop rt stop s of (snap, s1) \<Rightarrow> processStops rt stops (results @ [snap]) s1)"

definition fetchRealDelayData :: "runtime \<Rightarrow> state \<Rightarrow> snapshot list \<times> state" where
  "fetchRealDelayData rt s =
     (case checkApiAvailability rt s of (isApiAvailable, s1) \<Rightarrow>
        if \<not> isApiAvailable then (generateSimulatedData rt, s1)
        else processStops rt R7_STOPS [] s1)"

definition getDelayByStopId :: "runtime \<Rightarrow> string \<Rightarrow> state \<Rightarrow> snapshot option \<times> state" where
  "getDelayByStopId rt sid s =
     (case fetchRealDelayData rt s of (allDelays, s1) \<Rightarrow>
        (find (\<lambda>d. stopId d = sid) allDelays, s1))"

definition searchStations :: "runtime \<Rightarrow> string \<Rightarrow> state \<Rightarrow> station list \<times> state" where
  "searchStations rt query s =
     (case checkApiAvailability rt s of (available, s1) \<Rightarrow>
        if \<not> available then
          (map (\<lambda>stop. \<lparr> station.id = str_or_default (stop.hafasId stop) (stop.id stop),
                          station.name = stop.name stop,
                          station.type = ''stop'',
                          station.location = None \<rparr>)
             (filter (\<lambda>stop. str_includes (toLowerCase rt (stop.name stop)) (toLowerCase rt query))
                R7_STOPS),
           s1)
        else (case hafasClient rt of
                None \<Rightarrow> ([], s1)
              | Some c \<Rightarrow>
                 (case locations c (calls s1) query 10 of
                    Inl e \<Rightarrow> ([], called s1)
                  | Inr results \<Rightarrow>
                     (map (\<lambda>r. \<lparr> station.id = station.id r, station.name = station.name r,
                                  station.type = station.type r,
                                  station.location = station.location r \<rparr>)
                        (filter (\<lambda>r. station.type r = ''stop'') results),
                      called s1))))"

definition isUsingRealData :: "runtime \<Rightarrow> state \<Rightarrow> bool \<times> state" where
  "isUsingRealData rt s = checkApiAvailability rt s"

section \<open>The controller (Backend/controllers/delayController.js)\<close>

text \<open>
  A response: \<open>Json_ok x\<close> is \<open>res.json({success: true, ...})\<close> with the remaining fields
  \<open>x\<close> (status 200); \<open>Json_error code success msg\<close> is
  \<open>res.status(code).json({success: success, error: msg})\<close>.
\<close>

datatype 'a response = Json_ok 'a | Json_error nat bool string

record delay_payload =
  route :: string
  dataSource :: string
  isRealData :: bool
  data :: snapshot
  timestamp :: int

definition getDelayByStop ::
    "runtime \<Rightarrow> string \<Rightarrow> state \<Rightarrow> delay_payload response \<times> state" where
  "getDelayByStop rt sid s =
     (case isUsingRealData rt s of (isReal, s1) \<Rightarrow>
        (case getDelayByStopId rt sid s1 of
           (None, s2) \<Rightarrow> (Json_error 404 False ''Stop not found'', s2)
         | (Some delayData, s2) \<Rightarrow>
            (Json_ok \<lparr> delay_payload.route = ''R7'',
                       delay_payload.dataSource =
                         (if isReal then ''saarfahrplan HAFAS API (Echtzeitdaten)''
                          else ''Simulierte Daten''),
                       delay_payload.isRealData = isReal,
                       delay_payload.data = delayData,
                       delay_payload.timestamp = now rt \<rparr>,
             s2)))"

text \<open>
  Reading a field of a snapshot: \<open>d.error\<close> is \<open>undefined\<close> on a snapshot with data,
  \<open>d.scheduledDeparture\<close> is \<open>undefined\<close> on one with an error, and \<open>null\<close> on one with
  data and no departure.
\<close>

definition errorOf :: "snapshot \<Rightarrow> string option" where
  "errorOf d = (case body d of Failed e \<Rightarrow> Some e | Data x \<Rightarrow> None)"

definition scheduledDepartureOf :: "snapshot \<Rightarrow> int option" where
  "scheduledDepartureOf d =
     (case body d of Failed e \<Rightarrow> None | Data x \<Rightarrow> stop_data.scheduledDeparture x)"

text \<open>The callback \<open>d => !d.error && d.scheduledDeparture\<close>.\<close>

definition isValidDelay :: "snapshot \<Rightarrow> bool" where
  "isValidDelay d =
     ((case errorOf d of None \<Rightarrow> True | Some e \<Rightarrow> e = []) \<and> scheduledDepartureOf d \<noteq> None)"

text \<open>
  \<open>delays.filter(d => !d.error && d.scheduledDeparture)\<close>, as the data fields the
  statistics read: a snapshot that passes the filter has a \<open>scheduledDeparture\<close>, so it
  is one with data.
\<close>

definition validDelays :: "snapshot list \<Rightarrow> stop_data list" where
  "validDelays delays =
     List.map_filter
       (\<lambda>d. if isValidDelay d
             then (case body d of Failed e \<Rightarrow> None | Data x \<Rightarrow> Some x)
             else None)
       delays"

text \<open>\<open>d.cancelled\<close> of any snapshot: \<open>undefined\<close>, hence falsy, on one with an \<open>error\<close>.\<close>

definition isCancelled :: "snapshot \<Rightarrow> bool" where
  "isCancelled d = (case body d of Failed e \<Rightarrow> False | Data x \<Rightarrow> stop_data.cancelled x)"

record summary =
  totalStops :: nat
  stopsWithData :: nat
  averageDelayMinutes :: int
  maxDelayMinutes :: int
  onTimePercentage :: int
  stopsOnTime :: nat
  stopsDelayed :: int
  cancelledServices :: nat

definition totalDelays :: "stop_data list \<Rightarrow> int" where
  "totalDelays valid = fold (\<lambda>d sum. sum + stop_data.delayMinutes d) valid 0"

definition onTimeCount :: "stop_data list \<Rightarrow> nat" where
  "onTimeCount valid = length (filter (\<lambda>d. stop_data.delayMinutes d = 0) valid)"

text \<open>
  The statistics of \<open>getRouteSummary\<close>. With at most seven snapshots the quotient
  \<open>onTimeCount / validDelays.length * 100\<close> is never half-way between two integers, so its
  rounding is that of the exact quotient.
\<close>

definition routeSummary :: "snapshot list \<Rightarrow> summary" where
  "routeSummary delays =
     (let valid = validDelays delays;
          averageDelay =
            (if length valid > 0 then Math_round_div (totalDelays valid) (int (length valid))
             else 0);
          maxDelay =
            (case map stop_data.delayMinutes valid of [] \<Rightarrow> 0 | m # ms \<Rightarrow> fold max ms m);
          cancelledCount = length (filter isCancelled delays)
      in \<lparr> totalStops = length delays,
           stopsWithData = length valid,
           averageDelayMinutes = averageDelay,
           maxDelayMinutes = maxDelay,
           onTimePercentage =
             (if length valid > 0
              then Math_round_div (int (onTimeCount valid) * 100) (int (length valid))
              else 0),
           stopsOnTime = onTimeCount valid,
           stopsDelayed = int (length valid) - int (onTimeCount valid),
           cancelledServices = cancelledCount \<rparr>)"

record summary_payload =
  route :: string
  routeDescription :: string
  dataSource :: string
  isRealData :: bool
  summary :: summary
  timestamp :: int

definition getRouteSummary :: "runtime \<Rightarrow> state \<Rightarrow> summary_payload response \<times> state" where
  "getRouteSummary rt s =
     (case isUsingRealData rt s of (isReal, s1) \<Rightarrow>
        (case fetchRealDelayData rt s1 of (delays, s2) \<Rightarrow>
           (Json_ok \<lparr> summary_payload.route = ''R7'',
                      summary_payload.routeDescription =
                        ''Zweibr'' @ [CHR 0xFC] @ ''cken - Homburg (Saarland)'',
                      summary_payload.dataSource =
                        (if isReal then ''saarfahrplan HAFAS API (Echtzeitdaten)''
                         else ''Simulierte Daten''),
                      summary_payload.isRealData = isReal,
                      summary_payload.summary = routeSummary delays,
                      summary_payload.timestamp = now rt \<rparr>,
            s2)))"

section \<open>The claims' wording and concrete inputs\<close>

text \<open>
  The minute count from the two timestamps as the specification words it:
  \<open>round((actualTime - scheduledTime) / 60 s)\<close> when both timestamps are present, else 0.
\<close>

definition minutesFromTimes :: "departure \<Rightarrow> int" where
  "minutesFromTimes dep =
     (case (departure.plannedWhen dep, departure.when dep) of
        (Some (Time s), Some (Time a)) \<Rightarrow> round (real_of_int (a - s) / 60000)
      | _ \<Rightarrow> 0)"

text \<open>
  The minute count of C2 as the claim words it: from the delay field whenever it is
  present, from the timestamps when it is absent, clamped at zero.
\<close>

definition claimed_delayMinutes :: "departure \<Rightarrow> int" where
  "claimed_delayMinutes dep =
     max 0 (case departure.delay dep of
              Some d \<Rightarrow> round (real_of_int d / 60)
            | None \<Rightarrow> minutesFromTimes dep)"

text \<open>A departure 100 s early, and the object \<open>calculateDelay\<close> returns for it.\<close>

definition early_departure :: departure where
  "early_departure =
     \<lparr> departure.plannedWhen = Some (Time 600000), departure.when = Some (Time 500000),
       departure.delay = Some (- 100), departure.cancelled = False,
       departure.platform = None, departure.plannedPlatform = Some ''2'',
       departure.direction = Some ''Homburg'', departure.line = None,
       departure.remarks = None \<rparr>"

definition early_info :: delay_info where
  "early_info =
     \<lparr> delay_info.scheduledDeparture = Some 600000, delay_info.expectedDeparture = Some 500000,
       delay_info.delayMinutes = 0, delay_info.status = ''on-time'',
       delay_info.cancelled = False, delay_info.platform = Some ''2'',
       delay_info.direction = Some ''Homburg'', delay_info.lineName = ''R7'',
       delay_info.remarks = [] \<rparr>"

text \<open>
  The upstream client computes the delay field of a departure from the planned and the
  real-time departure it reports: their difference in seconds. A delay field of 0 therefore
  comes with timestamps that are not apart (or with no \<open>when\<close> at all, for a cancelled
  departure). The condition below asks no more than this of a departure, and nothing of one
  whose delay field is absent or not 0.
\<close>

definition zeroDelayAgrees :: "departure \<Rightarrow> bool" where
  "zeroDelayAgrees dep = (departure.delay dep = Some 0 \<longrightarrow> minutesFromTimes dep \<le> 0)"

text \<open>
  A departure on time, with the delay field 0, and one 290 s late that carries no delay
  field.
\<close>

definition punctual_departure :: departure where
  "punctual_departure =
     \<lparr> departure.plannedWhen = Some (Time 600000), departure.when = Some (Time 600000),
       departure.delay = Some 0, departure.cancelled = False,
       departure.platform = None, departure.plannedPlatform = None,
       departure.direction = None, departure.line = None,
       departure.remarks = None \<rparr>"

definition unreported_departure :: departure where
  "unreported_departure =
     \<lparr> departure.plannedWhen = Some (Time 0), departure.when = Some (Time 290000),
       departure.delay = None, departure.cancelled = False,
       departure.platform = None, departure.plannedPlatform = None,
       departure.direction = None, departure.line = None,
       departure.remarks = None \<rparr>"

text \<open>A runtime without upstream client: the service runs in simulated mode.\<close>

definition offline_runtime :: runtime where
  "offline_runtime =
     \<lparr> hafasClient = None, toUpperCase = ascii_upper, toLowerCase = ascii_lower,
       random = (\<lambda>k. 1 / 2), now = 0, tzOffset = 0 \<rparr>"









text \<open>
  The snapshots of C4 as the claim words it: exactly those without an \<open>error\<close> field.
\<close>

definition claimed_validDelays :: "snapshot list \<Rightarrow> stop_data list" where
  "claimed_validDelays delays =
     List.map_filter (\<lambda>d. case body d of Failed e \<Rightarrow> None | Data x \<Rightarrow> Some x) delays"

text \<open>
  An upstream whose directory finds every stop and which knows one departure, ten minutes
  late, at the last stop and none elsewhere.
\<close>

definition late_departure :: departure where
  "late_departure =
     \<lparr> departure.plannedWhen = Some (Time 0), departure.when = Some (Time 600000),
       departure.delay = Some 600, departure.cancelled = False,
       departure.platform = None, departure.plannedPlatform = None,
       departure.direction = None,
       departure.line = Some \<lparr> line.name = Some ''R7'', line.product = None \<rparr>,
       departure.remarks = None \<rparr>"

definition quiet_client :: hafas where
  "quiet_client =
     \<lparr> locations =
         (\<lambda>k query results.
            Inr [\<lparr> station.id = query, station.name = query, station.type = ''stop'',
                   station.location = None \<rparr>]),
       departures =
         (\<lambda>k stationId duration results.
            if stationId = ''Homburg Hbf'' then Inr [late_departure] else Inr []) \<rparr>"

definition quiet_runtime :: runtime where
  "quiet_runtime =
     \<lparr> hafasClient = Some quiet_client, toUpperCase = ascii_upper, toLowerCase = ascii_lower,
       random = (\<lambda>k. 1 / 2), now = 0, tzOffset = 0 \<rparr>"

text \<open>The list \<open>delays\<close> that \<open>getRouteSummary\<close> summarises.\<close>

definition summarisedDelays :: "runtime \<Rightarrow> state \<Rightarrow> snapshot list" where
  "summarisedDelays rt s = fst (fetchRealDelayData rt (snd (isUsingRealData rt s)))"

definition quiet_delays :: "snapshot list" where
  "quiet_delays = summarisedDelays quiet_runtime initial_state"

text \<open>
  A cancelled departure as the upstream client delivers it, with a prognosis ten minutes
  late: \<open>{cancelled: true, delay: 600, plannedWhen: T, when: null}\<close>; and an upstream whose
  directory finds nothing and which knows this departure at every station.
\<close>

definition cancelled_departure :: departure where
  "cancelled_departure =
     \<lparr> departure.plannedWhen = Some (Time 0), departure.when = None,
       departure.delay = Some 600, departure.cancelled = True,
       departure.platform = None, departure.plannedPlatform = None,
       departure.direction = None,
       departure.line = Some \<lparr> line.name = Some ''R7'', line.product = None \<rparr>,
       departure.remarks = None \<rparr>"

definition cancelled_info :: delay_info where
  "cancelled_info =
     \<lparr> delay_info.scheduledDeparture = Some 0, delay_info.expectedDeparture = Some 0,
       delay_info.delayMinutes = 10, delay_info.status = ''delayed'',
       delay_info.cancelled = True, delay_info.platform = None,
       delay_info.direction = None, delay_info.lineName = ''R7'',
       delay_info.remarks = [] \<rparr>"

definition cancelled_client :: hafas where
  "cancelled_client =
     \<lparr> locations = (\<lambda>k query results. Inr []),
       departures = (\<lambda>k stationId duration results. Inr [cancelled_departure]) \<rparr>"

definition cancelled_runtime :: runtime where
  "cancelled_runtime =
     \<lparr> hafasClient = Some cancelled_client, toUpperCase = ascii_upper,
       toLowerCase = ascii_lower, random = (\<lambda>k. 1 / 2), now = 0, tzOffset = 0 \<rparr>"

text \<open>
  An upstream that takes each round of the loop through a different branch: the directory
  finds nothing for the first three and the last stop, finds the fourth and the fifth, and
  rejects the query for the sixth; the departures of the fourth stop carry an Invalid Date,
  and the departures query for the static id of the last stop is rejected.
\<close>

definition broken_departure :: departure where
  "broken_departure =
     \<lparr> departure.plannedWhen = Some InvalidDate, departure.when = None,
       departure.delay = None, departure.cancelled = False,
       departure.platform = None, departure.plannedPlatform = None,
       departure.direction = None,
       departure.line = Some \<lparr> line.name = Some ''R7'', line.product = None \<rparr>,
       departure.remarks = None \<rparr>"

definition mixed_client :: hafas where
  "mixed_client =
     \<lparr> locations =
         (\<lambda>k query results.
            if query = ''Ingweiler'' then
              Inr [\<lparr> station.id = ''A4'', station.name = ''Ingweiler, Ort'',
                     station.type = ''address'', station.location = None \<rparr>,
                   \<lparr> station.id = ''I4'', station.name = ''Ingweiler'',
                     station.type = ''stop'', station.location = None \<rparr>]
            else if query = ''Bierbach'' then
              Inr [\<lparr> station.id = ''B5'', station.name = ''Bierbach Bahnhof'',
                     station.type = ''station'', station.location = None \<rparr>]
            else if query = ''Beeden'' then Inl ''timeout''
            else Inr []),
       departures =
         (\<lambda>k stationId duration results.
            if stationId = ''I4'' then Inr [broken_departure]
            else if stationId = ''8000176'' then Inl ''HTTP 503''
            else Inr [late_departure]) \<rparr>"

definition mixed_runtime :: runtime where
  "mixed_runtime =
     \<lparr> hafasClient = Some mixed_client, toUpperCase = ascii_upper, toLowerCase = ascii_lower,
       random = (\<lambda>k. 1 / 2), now = 0, tzOffset = 0 \<rparr>"

text \<open>
  What C6 speaks of in a snapshot: \<open>cancelled\<close>, \<open>delayMinutes\<close> and \<open>status\<close>.
\<close>

definition reported :: "snapshot \<Rightarrow> (bool \<times> int \<times> string) option" where
  "reported d =
     (case body d of
        Data x \<Rightarrow> Some (stop_data.cancelled x, stop_data.delayMinutes x, stop_data.status x)
      | Failed e \<Rightarrow> None)"

text \<open>
  A runtime without upstream client whose first sixteen random draws vary: base draws
  below 5, at 5 and above, and cancellation draws on both sides of 0.05. The first and the
  last stop take a third draw, for the platform.
\<close>

definition varied_draws :: "real list" where
  "varied_draws =
     [3 / 16, 1 / 2, 0,
      11 / 16, 1 / 2,
      15 / 16, 1 / 100,
      5 / 16, 1 / 2,
      0, 1 / 2,
      1 / 2, 1 / 2,
      4 / 16, 1 / 100, 1 / 2]"

definition varied_runtime :: runtime where
  "varied_runtime =
     \<lparr> hafasClient = None, toUpperCase = ascii_upper, toLowerCase = ascii_lower,
       random = (\<lambda>k. if k < 16 then varied_draws ! k else 1 / 2), now = 0, tzOffset = 0 \<rparr>"

section \<open>Properties\<close>

text \<open>\<open>Math_round_div\<close> is rounding to the nearest integer, a tie going up.\<close>

lemma Math_round_div_round:
  assumes "0 < n"
  shows "Math_round_div a n = round (real_of_int a / real_of_int n)"
proof -
  have "real_of_int a / real_of_int n + 1 / 2 = real_of_int (2 * a + n) / real_of_int (2 * n)"
    using assms by (simp add: field_simps)
  then have "round (real_of_int a / real_of_int n) = \<lfloor>real_of_int (2 * a + n) / real_of_int (2 * n)\<rfloor>"
    by (simp add: round_def)
  also have "\<dots> = (2 * a + n) div (2 * n)"
    by (rule floor_divide_of_int_eq)
  finally show ?thesis by (simp add: Math_round_div_def)
qed

subsection \<open>Status classification\<close>

text \<open>
  C1. \<open>getDelayStatus\<close> is a total function of the integer minute count: \<open>m \<le> 0\<close> gives
  "on-time", \<open>1 \<le> m \<le> 5\<close> "slight-delay", \<open>6 \<le> m \<le> 10\<close> "delayed" and \<open>m > 10\<close>
  "heavily-delayed"; the result is one of these four pairwise different statuses, and the
  severity of the result does not decrease when \<open>m\<close> increases.
\<close>

theorem getDelayStatus_classification:
  "(m \<le> 0 \<longrightarrow> getDelayStatus m = ''on-time'') \<and>
   (1 \<le> m \<and> m \<le> 5 \<longrightarrow> getDelayStatus m = ''slight-delay'') \<and>
   (6 \<le> m \<and> m \<le> 10 \<longrightarrow> getDelayStatus m = ''delayed'') \<and>
   (10 < m \<longrightarrow> getDelayStatus m = ''heavily-delayed'') \<and>
   getDelayStatus m \<in> {''on-time'', ''slight-delay'', ''delayed'', ''heavily-delayed''} \<and>
   distinct [''on-time'', ''slight-delay'', ''delayed'', ''heavily-delayed''] \<and>
   (m \<le> n \<longrightarrow> severity (getDelayStatus m) \<le> severity (getDelayStatus n))"
  by (simp add: getDelayStatus_def severity_def)

theorem getDelayStatus_classification_witness:
  "((0::int) \<le> 0 \<and> getDelayStatus 0 = ''on-time'') \<and>
   ((1::int) \<le> 3 \<and> (3::int) \<le> 5 \<and> getDelayStatus 3 = ''slight-delay'') \<and>
   ((6::int) \<le> 8 \<and> (8::int) \<le> 10 \<and> getDelayStatus 8 = ''delayed'') \<and>
   ((10::int) < 12 \<and> getDelayStatus 12 = ''heavily-delayed'') \<and>
   ((3::int) \<le> 12 \<and> severity (getDelayStatus 3) \<le> severity (getDelayStatus 12))"
  using getDelayStatus_classification [of 0 0] getDelayStatus_classification [of 3 12]
    getDelayStatus_classification [of 8 8] getDelayStatus_classification [of 12 12]
  by (simp add: severity_def)

subsection \<open>The delay calculator\<close>

lemma toISOString_or_null_Inr:
  "toISOString_or_null d = Inr t \<longleftrightarrow>
     (d = None \<and> t = None) \<or> (\<exists>x. d = Some (Time x) \<and> t = Some x)"
proof (cases d)
  case None
  then show ?thesis by auto
next
  case (Some x)
  then show ?thesis by (cases x) auto
qed

lemma toISOString_or_null_Inl:
  "toISOString_or_null d = Inl e \<longleftrightarrow> d = Some InvalidDate \<and> e = ''Invalid time value''"
proof (cases d)
  case None
  then show ?thesis by simp
next
  case (Some x)
  then show ?thesis by (cases x) auto
qed

text \<open>\<open>calculateDelay\<close> returns exactly when neither timestamp is an Invalid Date.\<close>

lemma calculateDelay_returns:
  "(\<exists>r. calculateDelay dep = Inr r) \<longleftrightarrow>
   (departure.plannedWhen dep \<noteq> Some InvalidDate \<and> departure.when dep \<noteq> Some InvalidDate)"
  by (auto simp: calculateDelay_def Let_def toISOString_or_null_Inl toISOString_or_null_Inr
      split: sum.splits)

lemma calculateDelay_Inr:
  assumes "calculateDelay dep = Inr r"
  obtains sch act where
    "toISOString_or_null (departure.plannedWhen dep) = Inr sch"
    "toISOString_or_null (departure.when dep) = Inr act"
    "delay_info.scheduledDeparture r = sch"
    "delay_info.delayMinutes r = max 0 (unclampedMinutes dep sch act)"
    "delay_info.status r = getDelayStatus (unclampedMinutes dep sch act)"
    "delay_info.cancelled r = departure.cancelled dep"
  using assms by (auto simp: calculateDelay_def split: sum.splits)

lemma getDelayStatus_max: "getDelayStatus (max 0 m) = getDelayStatus m"
  by (simp add: getDelayStatus_def max_def)

lemma minutesFromTimes_eq:
  assumes "toISOString_or_null (departure.plannedWhen dep) = Inr sch"
    and "toISOString_or_null (departure.when dep) = Inr act"
  shows "minutesFromTimes dep = minutesBetween sch act"
  using assms
  by (auto simp: minutesFromTimes_def minutesBetween_def toISOString_or_null_Inr
      Math_round_div_round)

lemma unclampedMinutes_eq:
  assumes "toISOString_or_null (departure.plannedWhen dep) = Inr sch"
    and "toISOString_or_null (departure.when dep) = Inr act"
  shows "unclampedMinutes dep sch act =
    (case departure.delay dep of
       None \<Rightarrow> minutesFromTimes dep
     | Some d \<Rightarrow> if d = 0 then minutesFromTimes dep else round (real_of_int d / 60))"
  by (simp add: unclampedMinutes_def minutesFromTimes_eq [OF assms] Math_round_div_round
      split: option.splits)

lemma calculateDelay_early: "calculateDelay early_departure = Inr early_info"
  by (simp add: calculateDelay_def early_departure_def early_info_def
      unclampedMinutes_def minutesBetween_def Math_round_div_def or_str_def str_or_default_def getDelayStatus_def)

text \<open>
  What \<open>calculateDelay\<close> reports on any departure: the guard \<open>if (departure.delay)\<close> sends a
  delay field of 0 to the timestamps, like an absent one.
\<close>

lemma calculateDelay_exact:
  assumes "calculateDelay dep = Inr r"
  shows "delay_info.delayMinutes r =
        max 0 (case departure.delay dep of
                 None \<Rightarrow> minutesFromTimes dep
               | Some d \<Rightarrow> if d = 0 then minutesFromTimes dep else round (real_of_int d / 60))"
  using assms
proof (rule calculateDelay_Inr)
  fix sch act
  assume "toISOString_or_null (departure.plannedWhen dep) = Inr sch"
    and "toISOString_or_null (departure.when dep) = Inr act"
    and "delay_info.delayMinutes r = max 0 (unclampedMinutes dep sch act)"
  then show ?thesis
    by (simp add: unclampedMinutes_eq)
qed

text \<open>
  C2. For every departure for which \<open>calculateDelay\<close> returns, and whose delay field, when
  it is 0, agrees with its timestamps (as the upstream client delivers it), \<open>delayMinutes\<close>
  is: \<open>round(delay / 60)\<close> if the delay field is present; if it is absent,
  \<open>round((actualTime - scheduledTime) / 60 s)\<close> when both timestamps are present, else 0;
  in every case clamped to be at least 0. \<open>delayMinutes\<close> is never negative, on any
  departure, and \<open>calculateDelay\<close> returns whenever neither timestamp is an Invalid Date.
\<close>

theorem calculateDelay_delayMinutes:
  "(calculateDelay dep = Inr r \<and> zeroDelayAgrees dep \<longrightarrow>
      delay_info.delayMinutes r = claimed_delayMinutes dep) \<and>
   (calculateDelay dep = Inr r \<longrightarrow> 0 \<le> delay_info.delayMinutes r) \<and>
   (departure.plannedWhen dep \<noteq> Some InvalidDate \<and> departure.when dep \<noteq> Some InvalidDate
      \<longrightarrow> (\<exists>r. calculateDelay dep = Inr r))"
proof -
  have eq: "delay_info.delayMinutes r = claimed_delayMinutes dep"
    if "calculateDelay dep = Inr r" and "zeroDelayAgrees dep"
    using calculateDelay_exact [OF that(1)] that(2)
    by (auto simp: claimed_delayMinutes_def zeroDelayAgrees_def split: option.splits)
  have nonneg: "0 \<le> delay_info.delayMinutes r" if "calculateDelay dep = Inr r"
    using calculateDelay_exact [OF that] by simp
  from eq nonneg calculateDelay_returns [of dep] show ?thesis
    by blast
qed

lemma calculateDelay_examples:
  "calculateDelay punctual_departure = Inr r1 \<Longrightarrow> delay_info.delayMinutes r1 = 0"
  "calculateDelay late_departure = Inr r2 \<Longrightarrow> delay_info.delayMinutes r2 = 10"
  "calculateDelay unreported_departure = Inr r3 \<Longrightarrow> delay_info.delayMinutes r3 = 5"
  "calculateDelay early_departure = Inr r4 \<Longrightarrow> delay_info.delayMinutes r4 = 0"
  by (auto simp: calculateDelay_def punctual_departure_def late_departure_def
      unreported_departure_def early_departure_def unclampedMinutes_def minutesBetween_def
      Math_round_div_def)

lemma zeroDelayAgrees_examples:
  "zeroDelayAgrees punctual_departure" "zeroDelayAgrees late_departure"
  "zeroDelayAgrees unreported_departure" "zeroDelayAgrees early_departure"
  by (simp_all add: zeroDelayAgrees_def minutesFromTimes_def punctual_departure_def
      late_departure_def unreported_departure_def early_departure_def)

theorem calculateDelay_delayMinutes_witness:
  "zeroDelayAgrees punctual_departure \<and>
   (\<exists>r. calculateDelay punctual_departure = Inr r \<and> delay_info.delayMinutes r = 0 \<and>
        claimed_delayMinutes punctual_departure = 0) \<and>
   zeroDelayAgrees late_departure \<and>
   (\<exists>r. calculateDelay late_departure = Inr r \<and> delay_info.delayMinutes r = 10 \<and>
        claimed_delayMinutes late_departure = 10) \<and>
   zeroDelayAgrees unreported_departure \<and>
   (\<exists>r. calculateDelay unreported_departure = Inr r \<and> delay_info.delayMinutes r = 5 \<and>
        claimed_delayMinutes unreported_departure = 5) \<and>
   zeroDelayAgrees early_departure \<and>
   (\<exists>r. calculateDelay early_departure = Inr r \<and> delay_info.delayMinutes r = 0 \<and>
        claimed_delayMinutes early_departure = 0)"
proof -
  have run: "\<exists>r. calculateDelay dep = Inr r \<and> delay_info.delayMinutes r = claimed_delayMinutes dep"
    if "zeroDelayAgrees dep" and "departure.plannedWhen dep \<noteq> Some InvalidDate"
      and "departure.when dep \<noteq> Some InvalidDate" for dep
  proof -
    from that calculateDelay_delayMinutes [of dep] obtain r where
      r: "calculateDelay dep = Inr r" by blast
    with that calculateDelay_delayMinutes [of dep r] show ?thesis by blast
  qed
  have a: "\<exists>r. calculateDelay punctual_departure = Inr r \<and> delay_info.delayMinutes r = 0 \<and>
        claimed_delayMinutes punctual_departure = 0"
    using run [of punctual_departure] zeroDelayAgrees_examples(1) calculateDelay_examples(1)
    by (auto simp: punctual_departure_def)
  have b: "\<exists>r. calculateDelay late_departure = Inr r \<and> delay_info.delayMinutes r = 10 \<and>
        claimed_delayMinutes late_departure = 10"
    using run [of late_departure] zeroDelayAgrees_examples(2) calculateDelay_examples(2)
    by (auto simp: late_departure_def)
  have c: "\<exists>r. calculateDelay unreported_departure = Inr r \<and> delay_info.delayMinutes r = 5 \<and>
        claimed_delayMinutes unreported_departure = 5"
    using run [of unreported_departure] zeroDelayAgrees_examples(3) calculateDelay_examples(3)
    by (auto simp: unreported_departure_def)
  have d: "\<exists>r. calculateDelay early_departure = Inr r \<and> delay_info.delayMinutes r = 0 \<and>
        claimed_delayMinutes early_departure = 0"
    using run [of early_departure] zeroDelayAgrees_examples(4) calculateDelay_examples(4)
    by (auto simp: early_departure_def)
  from a b c d zeroDelayAgrees_examples show ?thesis
    by blast
qed

text \<open>
  C9. The \<open>status\<close> of the object \<open>calculateDelay\<close> returns is the classification of its
  own clamped \<open>delayMinutes\<close>, because \<open>getDelayStatus m = getDelayStatus (max 0 m)\<close> for
  every integer \<open>m\<close>.
\<close>

theorem calculateDelay_status_consistent:
  "(calculateDelay dep = Inr r \<longrightarrow>
      delay_info.status r = getDelayStatus (delay_info.delayMinutes r)) \<and>
   getDelayStatus m = getDelayStatus (max 0 m)"
proof -
  have "delay_info.status r = getDelayStatus (delay_info.delayMinutes r)"
    if "calculateDelay dep = Inr r"
    using that by (rule calculateDelay_Inr) (simp add: getDelayStatus_max)
  then show ?thesis by (simp add: getDelayStatus_max)
qed

theorem calculateDelay_status_consistent_witness:
  "calculateDelay early_departure = Inr early_info \<and>
   delay_info.status early_info = getDelayStatus (delay_info.delayMinutes early_info) \<and>
   getDelayStatus (- 2) = getDelayStatus (max 0 (- 2))"
  using calculateDelay_status_consistent [of early_departure early_info "- 2"]
    calculateDelay_early
  by simp

subsection \<open>The aggregate resolver\<close>

lemma processStop_identity:
  "stopId (fst (processStop rt stop s)) = stop.id stop \<and>
   stopOrder (fst (processStop rt stop s)) = stop.order stop"
  by (simp add: processStop_def dataSnapshot_def errorSnapshot_def Let_def
      split: prod.splits option.splits sum.splits)

lemma processStops_identity:
  "map stopId (fst (processStops rt stops results s)) = map stopId results @ map stop.id stops \<and>
   map stopOrder (fst (processStops rt stops results s)) =
     map stopOrder results @ map stop.order stops"
proof (induction stops arbitrary: results s)
  case Nil
  then show ?case by simp
next
  case (Cons stop stops)
  obtain snap s1 where step: "processStop rt stop s = (snap, s1)"
    by (cases "processStop rt stop s")
  with processStop_identity [of rt stop s]
  have "stopId snap = stop.id stop" "stopOrder snap = stop.order stop"
    by simp_all
  with Cons.IH [of "results @ [snap]" s1] step show ?case
    by simp
qed

lemma simulateStop_identity:
  "stopId (fst (simulateStop rt stop i)) = stop.id stop \<and>
   stopOrder (fst (simulateStop rt stop i)) = stop.order stop"
  by (simp add: simulateStop_def Let_def)

lemma simulateStops_identity:
  "map stopId (simulateStops rt stops i) = map stop.id stops \<and>
   map stopOrder (simulateStops rt stops i) = map stop.order stops"
proof (induction stops arbitrary: i)
  case Nil
  then show ?case by simp
next
  case (Cons stop stops)
  obtain snap j where step: "simulateStop rt stop i = (snap, j)"
    by (cases "simulateStop rt stop i")
  with simulateStop_identity [of rt stop i]
  have "stopId snap = stop.id stop" "stopOrder snap = stop.order stop"
    by simp_all
  with Cons.IH [of j] step show ?case
    by simp
qed

lemma fetchRealDelayData_identity:
  "map stopId (fst (fetchRealDelayData rt s)) = map stop.id R7_STOPS \<and>
   map stopOrder (fst (fetchRealDelayData rt s)) = map stop.order R7_STOPS"
  using processStops_identity [of rt R7_STOPS "[]"] simulateStops_identity [of rt R7_STOPS 0]
  by (simp add: fetchRealDelayData_def generateSimulatedData_def split: prod.splits)

lemma R7_STOPS_orders: "map stop.order R7_STOPS = [1, 2, 3, 4, 5, 6, 7]"
  by (simp add: R7_STOPS_def)

lemma R7_STOPS_ids: "map stop.id R7_STOPS = map (\<lambda>c. [c]) ''1234567''"
  by (simp add: R7_STOPS_def)

text \<open>
  C3. Every run of \<open>fetchRealDelayData\<close>, in real and in simulated mode and whatever
  branch each round of the loop takes, returns one snapshot per static stop: seven
  snapshots, whose \<open>stopOrder\<close>s are those of the static stops in their order, 1 to 7
  ascending, each the order of exactly one stop.
\<close>

theorem fetchRealDelayData_one_per_stop:
  "length (fst (fetchRealDelayData rt s)) = length R7_STOPS \<and>
   length R7_STOPS = 7 \<and>
   map stopOrder (fst (fetchRealDelayData rt s)) = map stop.order R7_STOPS \<and>
   map stopOrder (fst (fetchRealDelayData rt s)) = [1, 2, 3, 4, 5, 6, 7] \<and>
   distinct (map stop.order R7_STOPS) \<and>
   sorted_wrt (<) (map stopOrder (fst (fetchRealDelayData rt s)))"
proof -
  have m: "map stopOrder (fst (fetchRealDelayData rt s)) = map stop.order R7_STOPS"
    using fetchRealDelayData_identity by blast
  have "length (map stopOrder (fst (fetchRealDelayData rt s))) = length (map stop.order R7_STOPS)"
    by (simp only: m)
  then have l: "length (fst (fetchRealDelayData rt s)) = length R7_STOPS"
    by simp
  show ?thesis
    using l by (simp add: m R7_STOPS_orders) (simp add: R7_STOPS_def)
qed

lemma fetchRealDelayData_mixed:
  "map errorOf (fst (fetchRealDelayData mixed_runtime initial_state)) =
     [None, Some ''Station not found in HAFAS'', Some ''Station not found in HAFAS'',
      Some ''Invalid time value'', None, Some ''Station not found in HAFAS'', None] \<and>
   map scheduledDepartureOf (fst (fetchRealDelayData mixed_runtime initial_state)) =
     [Some 0, None, None, None, Some 0, None, None]"
  by code_simp

theorem fetchRealDelayData_one_per_stop_witness:
  "length (fst (fetchRealDelayData mixed_runtime initial_state)) = 7 \<and>
   map stopOrder (fst (fetchRealDelayData mixed_runtime initial_state)) = [1, 2, 3, 4, 5, 6, 7] \<and>
   map errorOf (fst (fetchRealDelayData mixed_runtime initial_state)) =
     [None, Some ''Station not found in HAFAS'', Some ''Station not found in HAFAS'',
      Some ''Invalid time value'', None, Some ''Station not found in HAFAS'', None] \<and>
   map scheduledDepartureOf (fst (fetchRealDelayData mixed_runtime initial_state)) =
     [Some 0, None, None, None, Some 0, None, None]"
proof -
  note run = fetchRealDelayData_one_per_stop [of mixed_runtime initial_state]
  from run have seven: "length (fst (fetchRealDelayData mixed_runtime initial_state)) = 7"
    by simp
  from run have orders:
    "map stopOrder (fst (fetchRealDelayData mixed_runtime initial_state)) = [1, 2, 3, 4, 5, 6, 7]"
    by blast
  from seven orders fetchRealDelayData_mixed show ?thesis
    by blast
qed

subsection \<open>The single-stop lookup\<close>

lemma find_stopId:
  "find (\<lambda>d. stopId d = sid) ds = None \<longleftrightarrow> sid \<notin> set (map stopId ds)"
  by (auto simp: find_None_iff)

lemma find_stopId_Some:
  assumes "sid \<in> set (map stopId ds)"
  shows "\<exists>d. find (\<lambda>d. stopId d = sid) ds = Some d \<and> stopId d = sid \<and> d \<in> set ds"
proof -
  from assms have "find (\<lambda>d. stopId d = sid) ds \<noteq> None"
    by (simp add: find_stopId)
  then obtain d where d: "find (\<lambda>d. stopId d = sid) ds = Some d"
    by auto
  then have "stopId d = sid \<and> d \<in> set ds"
    by (auto simp: find_Some_iff)
  with d show ?thesis by blast
qed

lemma getDelayByStopId_find:
  "fst (getDelayByStopId rt sid s) = find (\<lambda>d. stopId d = sid) (fst (fetchRealDelayData rt s))"
  by (simp add: getDelayByStopId_def split: prod.splits)

lemma getDelayByStop_404:
  assumes "fst (getDelayByStopId rt sid (snd (isUsingRealData rt s))) = None"
  shows "fst (getDelayByStop rt sid s) = Json_error 404 False ''Stop not found''"
  using assms by (auto simp: getDelayByStop_def split: prod.splits option.splits)

lemma filter_stopId_unique:
  assumes "distinct (map stopId ds)" and "d \<in> set ds"
  shows "filter (\<lambda>x. stopId x = stopId d) ds = [d]"
  using assms
proof (induction ds)
  case Nil
  then show ?case by simp
next
  case (Cons a ds)
  show ?case
  proof (cases "d = a")
    case True
    from Cons.prems have "stopId a \<notin> stopId ` set ds"
      by simp
    then have "\<forall>x \<in> set ds. stopId x \<noteq> stopId a"
      by (metis imageI)
    then have "filter (\<lambda>x. stopId x = stopId a) ds = []"
      by (simp add: filter_empty_conv)
    with True show ?thesis by simp
  next
    case False
    with Cons.prems have d: "d \<in> set ds" by simp
    from Cons.prems have "stopId a \<notin> stopId ` set ds"
      by simp
    with d have "stopId a \<noteq> stopId d" by (metis imageI)
    moreover from Cons.prems d have "filter (\<lambda>x. stopId x = stopId d) ds = [d]"
      by (intro Cons.IH) simp_all
    ultimately show ?thesis by simp
  qed
qed

lemma R7_STOPS_ids_distinct: "distinct (map stop.id R7_STOPS)"
  by (simp add: R7_STOPS_def)

text \<open>
  C8. For every stop id: when the id is not one of the static stops, the single-stop lookup
  yields the absent result and the endpoint \<open>/api/delays/:stopId\<close> answers 404 with
  \<open>{success: false, error: "Stop not found"}\<close>; when it is one, the lookup returns a
  snapshot whose \<open>stopId\<close> is the id, the only one of the produced list. The lookup is
  the linear search of the produced list for the first snapshot with that \<open>stopId\<close>.
\<close>

theorem getDelayByStopId_lookup:
  "(sid \<notin> set (map stop.id R7_STOPS) \<longrightarrow>
      fst (getDelayByStopId rt sid s) = None \<and>
      fst (getDelayByStop rt sid s) = Json_error 404 False ''Stop not found'') \<and>
   (sid \<in> set (map stop.id R7_STOPS) \<longrightarrow>
      (\<exists>d. fst (getDelayByStopId rt sid s) = Some d \<and> stopId d = sid \<and>
           filter (\<lambda>x. stopId x = sid) (fst (fetchRealDelayData rt s)) = [d])) \<and>
   fst (getDelayByStopId rt sid s) =
     find (\<lambda>d. stopId d = sid) (fst (fetchRealDelayData rt s))"
proof -
  have ids: "map stopId (fst (fetchRealDelayData rt t)) = map stop.id R7_STOPS" for t
    using fetchRealDelayData_identity by blast
  have absent: "fst (getDelayByStopId rt sid t) = None"
    if "sid \<notin> set (map stop.id R7_STOPS)" for t
    using that by (simp add: getDelayByStopId_find find_stopId ids)
  have present: "\<exists>d. fst (getDelayByStopId rt sid s) = Some d \<and> stopId d = sid \<and>
           filter (\<lambda>x. stopId x = sid) (fst (fetchRealDelayData rt s)) = [d]"
    if "sid \<in> set (map stop.id R7_STOPS)"
  proof -
    from that find_stopId_Some [of sid "fst (fetchRealDelayData rt s)"]
    obtain d where d: "fst (getDelayByStopId rt sid s) = Some d" "stopId d = sid"
        "d \<in> set (fst (fetchRealDelayData rt s))"
      by (auto simp: getDelayByStopId_find ids)
    have "distinct (map stopId (fst (fetchRealDelayData rt s)))"
      by (simp only: ids R7_STOPS_ids_distinct)
    from filter_stopId_unique [OF this d(3)] d show ?thesis
      by simp
  qed
  show ?thesis
    using absent [of s] absent [of "snd (isUsingRealData rt s)"] present
      getDelayByStop_404 [of rt sid s] getDelayByStopId_find [of rt sid s]
    by blast
qed

theorem getDelayByStopId_lookup_witness:
  "''9'' \<notin> set (map stop.id R7_STOPS) \<and>
   fst (getDelayByStopId offline_runtime ''9'' initial_state) = None \<and>
   fst (getDelayByStop offline_runtime ''9'' initial_state) =
     Json_error 404 False ''Stop not found'' \<and>
   ''3'' \<in> set (map stop.id R7_STOPS) \<and>
   (\<exists>d. fst (getDelayByStopId offline_runtime ''3'' initial_state) = Some d \<and>
        stopId d = ''3'' \<and>
        filter (\<lambda>x. stopId x = ''3'') (fst (fetchRealDelayData offline_runtime initial_state)) =
          [d])"
proof -
  have absent: "''9'' \<notin> set (map stop.id R7_STOPS)"
    by (simp add: R7_STOPS_ids)
  have present: "''3'' \<in> set (map stop.id R7_STOPS)"
    by (simp add: R7_STOPS_ids)
  show ?thesis
    using absent present
      getDelayByStopId_lookup [of "''9''" offline_runtime initial_state]
      getDelayByStopId_lookup [of "''3''" offline_runtime initial_state]
    by blast
qed

subsection \<open>Substrings\<close>

lemma starts_with_iff: "starts_with s t \<longleftrightarrow> (\<exists>q. s = t @ q)"
  by (induction s t rule: starts_with.induct) auto

lemma str_includes_iff: "str_includes s t \<longleftrightarrow> (\<exists>p q. s = p @ t @ q)"
proof (induction s)
  case Nil
  then show ?case by auto
next
  case (Cons a s)
  show ?case
  proof
    assume "str_includes (a # s) t"
    then consider "starts_with (a # s) t" | "str_includes s t" by auto
    then show "\<exists>p q. a # s = p @ t @ q"
    proof cases
      case 1
      then obtain q where "a # s = t @ q" by (auto simp: starts_with_iff)
      then have "a # s = [] @ t @ q" by simp
      then show ?thesis by blast
    next
      case 2
      with Cons.IH obtain p q where "s = p @ t @ q" by auto
      then have "a # s = (a # p) @ t @ q" by simp
      then show ?thesis by blast
    qed
  next
    assume "\<exists>p q. a # s = p @ t @ q"
    then obtain p q where pq: "a # s = p @ t @ q" by auto
    show "str_includes (a # s) t"
    proof (cases p)
      case Nil
      with pq have "starts_with (a # s) t" by (auto simp: starts_with_iff)
      then show ?thesis by simp
    next
      case (Cons b p')
      with pq have "s = p' @ t @ q" by simp
      with Cons.IH have "str_includes s t" by blast
      then show ?thesis by simp
    qed
  qed
qed

subsection \<open>Station search without upstream\<close>

lemma checkApiAvailability_offline:
  "\<not> fst (checkApiAvailability offline_runtime initial_state)"
  by (simp add: checkApiAvailability_def offline_runtime_def initial_state_def)

text \<open>
  C10. When the upstream API is unavailable, \<open>searchStations(query)\<close> returns exactly the
  static stops whose lower-cased name contains the lower-cased query as a substring, in
  their order, each as a result with its upstream id (or else its own id), its name, the
  type "stop" and a null location. The function is total: no query string makes it raise.
\<close>

theorem searchStations_offline:
  "\<not> fst (checkApiAvailability rt s) \<longrightarrow>
     fst (searchStations rt query s) =
       map (\<lambda>stop. \<lparr> station.id =
                       (case stop.hafasId stop of
                          None \<Rightarrow> stop.id stop
                        | Some h \<Rightarrow> if h = [] then stop.id stop else h),
                     station.name = stop.name stop,
                     station.type = ''stop'',
                     station.location = None \<rparr>)
         (filter (\<lambda>stop. \<exists>p q. toLowerCase rt (stop.name stop) = p @ toLowerCase rt query @ q)
            R7_STOPS) \<and>
     (\<forall>r \<in> set (fst (searchStations rt query s)).
        station.type r = ''stop'' \<and> station.location r = None)"
  by (auto simp: searchStations_def str_includes_iff str_or_default_def
      split: prod.splits option.splits)

theorem searchStations_offline_witness:
  "\<not> fst (checkApiAvailability offline_runtime initial_state) \<and>
   fst (searchStations offline_runtime ''BACH'' initial_state) =
     [\<lparr> station.id = ''5'', station.name = ''Bierbach'', station.type = ''stop'',
        station.location = None \<rparr>]"
proof -
  have "fst (searchStations offline_runtime ''BACH'' initial_state) =
       map (\<lambda>stop. \<lparr> station.id =
                       (case stop.hafasId stop of
                          None \<Rightarrow> stop.id stop
                        | Some h \<Rightarrow> if h = [] then stop.id stop else h),
                     station.name = stop.name stop,
                     station.type = ''stop'',
                     station.location = None \<rparr>)
         (filter (\<lambda>stop. \<exists>p q. toLowerCase offline_runtime (stop.name stop) =
                    p @ toLowerCase offline_runtime ''BACH'' @ q)
            R7_STOPS)"
    using searchStations_offline [of offline_runtime initial_state "''BACH''"]
      checkApiAvailability_offline
    by blast
  then have "fst (searchStations offline_runtime ''BACH'' initial_state) =
       map (\<lambda>stop. \<lparr> station.id =
                       (case stop.hafasId stop of
                          None \<Rightarrow> stop.id stop
                        | Some h \<Rightarrow> if h = [] then stop.id stop else h),
                     station.name = stop.name stop,
                     station.type = ''stop'',
                     station.location = None \<rparr>)
         (filter (\<lambda>stop. str_includes (toLowerCase offline_runtime (stop.name stop))
                    (toLowerCase offline_runtime ''BACH''))
            R7_STOPS)"
    by (simp only: str_includes_iff)
  moreover have "map (\<lambda>stop. \<lparr> station.id =
                       (case stop.hafasId stop of
                          None \<Rightarrow> stop.id stop
                        | Some h \<Rightarrow> if h = [] then stop.id stop else h),
                     station.name = stop.name stop,
                     station.type = ''stop'',
                     station.location = None \<rparr>)
         (filter (\<lambda>stop. str_includes (toLowerCase offline_runtime (stop.name stop))
                    (toLowerCase offline_runtime ''BACH''))
            R7_STOPS) = [\<lparr> station.id = ''5'', station.name = ''Bierbach'', station.type = ''stop'',
        station.location = None \<rparr>]"
    by code_simp
  ultimately show ?thesis
    using checkApiAvailability_offline by simp
qed

subsection \<open>The departure fetcher and its line filter\<close>














subsection \<open>The route summary\<close>

lemma isValidDelay_iff:
  "isValidDelay d \<longleftrightarrow> errorOf d = None \<and> scheduledDepartureOf d \<noteq> None"
  by (cases "body d") (simp_all add: isValidDelay_def errorOf_def scheduledDepartureOf_def)

lemma validDelays_Nil: "validDelays [] = []"
  by (simp add: validDelays_def map_filter_simps)

lemma validDelays_Cons:
  "validDelays (d # ds) =
     (case body d of
        Failed e \<Rightarrow> validDelays ds
      | Data x \<Rightarrow> if stop_data.scheduledDeparture x \<noteq> None then x # validDelays ds
                  else validDelays ds)"
  by (cases "body d")
     (simp_all add: validDelays_def map_filter_simps isValidDelay_iff errorOf_def
        scheduledDepartureOf_def)

lemma validDelays_exactly:
  "map Data (validDelays delays) =
     map body (filter (\<lambda>d. errorOf d = None \<and> scheduledDepartureOf d \<noteq> None) delays)"
proof (induction delays)
  case Nil
  then show ?case by (simp add: validDelays_Nil)
next
  case (Cons d ds)
  then show ?case
    by (cases "body d") (simp_all add: validDelays_Cons errorOf_def scheduledDepartureOf_def)
qed

lemma fold_plus_sum_list:
  "fold (\<lambda>d sum. sum + f d) xs (a::int) = a + sum_list (map f xs)"
  by (induction xs arbitrary: a) simp_all

lemma totalDelays_sum_list:
  "totalDelays valid = sum_list (map stop_data.delayMinutes valid)"
  by (simp add: totalDelays_def fold_plus_sum_list)

lemma Math_max_list:
  "(case xs of [] \<Rightarrow> 0 | m # ms \<Rightarrow> fold max ms m) =
     (if xs = [] then (0::int) else Max (set xs))"
proof (cases xs)
  case Nil
  then show ?thesis by simp
next
  case (Cons m ms)
  have "fold max ms m = Max (set (m # ms))"
    by (rule Max.set_eq_fold [symmetric])
  with Cons show ?thesis by simp
qed

lemma Math_round_div_length:
  assumes "xs \<noteq> []"
  shows "Math_round_div a (int (length xs)) = round (real_of_int a / real (length xs))"
proof -
  from assms have "0 < int (length xs)" by simp
  from Math_round_div_round [OF this, of a] show ?thesis by simp
qed

lemma routeSummary_statistics:
  "totalStops (routeSummary delays) = length delays \<and>
   stopsWithData (routeSummary delays) = length (validDelays delays) \<and>
   averageDelayMinutes (routeSummary delays) =
     (if validDelays delays = [] then 0
      else round (real_of_int (sum_list (map stop_data.delayMinutes (validDelays delays))) /
                  real (length (validDelays delays)))) \<and>
   maxDelayMinutes (routeSummary delays) =
     (if validDelays delays = [] then 0
      else Max (set (map stop_data.delayMinutes (validDelays delays)))) \<and>
   stopsOnTime (routeSummary delays) =
     length (filter (\<lambda>x. stop_data.delayMinutes x = 0) (validDelays delays)) \<and>
   onTimePercentage (routeSummary delays) =
     (if validDelays delays = [] then 0
      else round (real_of_int (int (stopsOnTime (routeSummary delays)) * 100) /
                  real (length (validDelays delays)))) \<and>
   cancelledServices (routeSummary delays) = length (filter isCancelled delays)"
proof -
  define valid where "valid = validDelays delays"
  have avg: "averageDelayMinutes (routeSummary delays) =
     (if valid = [] then 0
      else round (real_of_int (sum_list (map stop_data.delayMinutes valid)) /
                  real (length valid)))"
    by (simp add: routeSummary_def Let_def valid_def [symmetric] totalDelays_sum_list
        Math_round_div_length)
  have mx: "maxDelayMinutes (routeSummary delays) =
     (if valid = [] then 0 else Max (set (map stop_data.delayMinutes valid)))"
    using Math_max_list [of "map stop_data.delayMinutes valid"]
    by (simp add: routeSummary_def Let_def valid_def [symmetric])
  have ot: "stopsOnTime (routeSummary delays) =
     length (filter (\<lambda>x. stop_data.delayMinutes x = 0) valid)"
    by (simp add: routeSummary_def Let_def valid_def [symmetric] onTimeCount_def)
  have pct: "onTimePercentage (routeSummary delays) =
     (if valid = [] then 0
      else round (real_of_int (int (stopsOnTime (routeSummary delays)) * 100) /
                  real (length valid)))"
    by (simp add: routeSummary_def Let_def valid_def [symmetric] Math_round_div_length)
  have rest: "totalStops (routeSummary delays) = length delays \<and>
     stopsWithData (routeSummary delays) = length valid \<and>
     cancelledServices (routeSummary delays) = length (filter isCancelled delays)"
    by (simp add: routeSummary_def Let_def valid_def [symmetric])
  from avg mx ot pct rest show ?thesis
    unfolding valid_def by blast
qed

lemma getRouteSummary_summary:
  "\<exists>p. fst (getRouteSummary rt s) = Json_ok p \<and>
       summary_payload.summary p =
         routeSummary (fst (fetchRealDelayData rt (snd (isUsingRealData rt s))))"
  by (simp add: getRouteSummary_def split: prod.splits)

text \<open>
  C4, as amended. The statistics of the route summary (average delay, maximum delay,
  on-time count, on-time percentage) are computed over exactly the snapshots that have no
  \<open>error\<close> field and have a \<open>scheduledDeparture\<close>: a snapshot is left out of them if and only
  if it carries an error or has no scheduled departure. The count of cancelled services is
  taken over the full list. Average delay and on-time percentage are rounded integers, 0
  when no snapshot is valid.
\<close>

theorem getRouteSummary_statistics:
  "(\<exists>p. fst (getRouteSummary rt s) = Json_ok p \<and>
        summary_payload.summary p = routeSummary (summarisedDelays rt s)) \<and>
   map Data (validDelays (summarisedDelays rt s)) =
     map body (filter (\<lambda>d. errorOf d = None \<and> scheduledDepartureOf d \<noteq> None)
                 (summarisedDelays rt s)) \<and>
   stopsWithData (routeSummary (summarisedDelays rt s)) =
     length (validDelays (summarisedDelays rt s)) \<and>
   averageDelayMinutes (routeSummary (summarisedDelays rt s)) =
     (if validDelays (summarisedDelays rt s) = [] then 0
      else round (real_of_int
                    (sum_list (map stop_data.delayMinutes (validDelays (summarisedDelays rt s)))) /
                  real (length (validDelays (summarisedDelays rt s))))) \<and>
   maxDelayMinutes (routeSummary (summarisedDelays rt s)) =
     (if validDelays (summarisedDelays rt s) = [] then 0
      else Max (set (map stop_data.delayMinutes (validDelays (summarisedDelays rt s))))) \<and>
   stopsOnTime (routeSummary (summarisedDelays rt s)) =
     length (filter (\<lambda>x. stop_data.delayMinutes x = 0) (validDelays (summarisedDelays rt s))) \<and>
   onTimePercentage (routeSummary (summarisedDelays rt s)) =
     (if validDelays (summarisedDelays rt s) = [] then 0
      else round (real_of_int (int (stopsOnTime (routeSummary (summarisedDelays rt s))) * 100) /
                  real (length (validDelays (summarisedDelays rt s))))) \<and>
   cancelledServices (routeSummary (summarisedDelays rt s)) =
     length (filter isCancelled (summarisedDelays rt s))"
  using getRouteSummary_summary [of rt s] validDelays_exactly [of "summarisedDelays rt s"]
    routeSummary_statistics [of "summarisedDelays rt s"]
  unfolding summarisedDelays_def by blast

lemma routeSummary_quiet:
  "routeSummary quiet_delays =
     \<lparr> totalStops = 7, stopsWithData = 1, averageDelayMinutes = 10, maxDelayMinutes = 10,
       onTimePercentage = 0, stopsOnTime = 0, stopsDelayed = 1, cancelledServices = 0 \<rparr>"
  by code_simp

lemma claimed_quiet:
  "length (claimed_validDelays quiet_delays) = 7 \<and>
   onTimeCount (claimed_validDelays quiet_delays) = 6 \<and>
   totalDelays (claimed_validDelays quiet_delays) = 10"
  by code_simp

theorem getRouteSummary_statistics_witness:
  "stopsWithData (routeSummary (summarisedDelays quiet_runtime initial_state)) = 1 \<and>
   length (validDelays (summarisedDelays quiet_runtime initial_state)) = 1 \<and>
   averageDelayMinutes (routeSummary (summarisedDelays quiet_runtime initial_state)) = 10 \<and>
   length (filter isCancelled (summarisedDelays quiet_runtime initial_state)) = 0"
  using getRouteSummary_statistics [of quiet_runtime initial_state] routeSummary_quiet
  by (simp add: quiet_delays_def)

text \<open>
  C4 as stated fails: with every station found and a single departure, ten minutes late, at
  the last stop, no snapshot has an error, yet the six snapshots without a scheduled
  departure are left out: the code counts one valid snapshot, none on time and an average
  of 10, where the seven snapshots without error give six on time and an average of 1.
\<close>

theorem getRouteSummary_error_only_counterexample:
  "validDelays quiet_delays \<noteq> claimed_validDelays quiet_delays \<and>
   stopsWithData (routeSummary quiet_delays) = 1 \<and>
   length (claimed_validDelays quiet_delays) = 7 \<and>
   stopsOnTime (routeSummary quiet_delays) = 0 \<and>
   onTimeCount (claimed_validDelays quiet_delays) = 6 \<and>
   averageDelayMinutes (routeSummary quiet_delays) = 10 \<and>
   Math_round_div (totalDelays (claimed_validDelays quiet_delays))
     (int (length (claimed_validDelays quiet_delays))) = 1"
proof -
  from claimed_quiet have
    "Math_round_div (totalDelays (claimed_validDelays quiet_delays))
       (int (length (claimed_validDelays quiet_delays))) = 1"
    by (simp add: Math_round_div_def)
  moreover have "length (validDelays quiet_delays) = 1"
    by code_simp
  then have "validDelays quiet_delays \<noteq> claimed_validDelays quiet_delays"
    using claimed_quiet by auto
  ultimately show ?thesis
    using claimed_quiet by (simp add: routeSummary_quiet)
qed

text \<open>
  C5 asks that a snapshot with \<open>cancelled = true\<close> adds 0 to the delay total of the summary
  while it is counted in \<open>cancelledServices\<close>. The simulated generator forces the delay of
  a cancelled stop to 0; \<open>calculateDelay\<close> does not: for the cancelled departure with a
  delay of 600 s it reports 10 minutes, and the summary of the two stops that show it has a
  delay total of 20 and an average of 10, with both counted as cancelled.
\<close>

theorem cancelled_delay_counted:
  "calculateDelay cancelled_departure = Inr cancelled_info \<and>
   delay_info.cancelled cancelled_info \<and>
   delay_info.delayMinutes cancelled_info = 10 \<and>
   totalDelays (validDelays (summarisedDelays cancelled_runtime initial_state)) = 20 \<and>
   routeSummary (summarisedDelays cancelled_runtime initial_state) =
     \<lparr> totalStops = 7, stopsWithData = 2, averageDelayMinutes = 10, maxDelayMinutes = 10,
       onTimePercentage = 0, stopsOnTime = 0, stopsDelayed = 2, cancelledServices = 2 \<rparr>"
  by code_simp

subsection \<open>The synthetic generator\<close>

lemma baseDelay_range:
  assumes "0 \<le> r" "r < 1"
  shows "0 \<le> baseDelay r \<and> baseDelay r \<le> 15"
proof -
  have "0 \<le> r * 16" using assms by simp
  moreover have "r * 16 < 16" using assms by simp
  ultimately show ?thesis
    unfolding baseDelay_def by (simp add: le_floor_iff floor_le_iff)
qed

lemma baseDelay_eq_iff:
  "baseDelay r = k \<longleftrightarrow> real_of_int k / 16 \<le> r \<and> r < (real_of_int k + 1) / 16"
proof -
  have "baseDelay r = k \<longleftrightarrow> real_of_int k \<le> r * 16 \<and> r * 16 < real_of_int k + 1"
    unfolding baseDelay_def by (rule floor_eq_iff)
  also have "\<dots> \<longleftrightarrow> real_of_int k / 16 \<le> r \<and> r < (real_of_int k + 1) / 16"
    by (simp add: pos_divide_le_eq pos_less_divide_eq)
  finally show ?thesis .
qed

lemma baseDelay_preimage:
  assumes "0 \<le> k" "k \<le> 15"
  shows "{r. 0 \<le> r \<and> r < 1 \<and> baseDelay r = k} =
         {real_of_int k / 16 ..< (real_of_int k + 1) / 16}"
proof -
  have k: "0 \<le> real_of_int k" "real_of_int k \<le> 15" using assms by simp_all
  have iff: "(0 \<le> r \<and> r < 1 \<and> baseDelay r = k) \<longleftrightarrow>
        (real_of_int k / 16 \<le> r \<and> r < (real_of_int k + 1) / 16)" for r
  proof
    assume "0 \<le> r \<and> r < 1 \<and> baseDelay r = k"
    then show "real_of_int k / 16 \<le> r \<and> r < (real_of_int k + 1) / 16"
      by (simp add: baseDelay_eq_iff)
  next
    assume a: "real_of_int k / 16 \<le> r \<and> r < (real_of_int k + 1) / 16"
    then have "baseDelay r = k" by (simp add: baseDelay_eq_iff)
    moreover have "0 \<le> real_of_int k / 16" "(real_of_int k + 1) / 16 \<le> 1"
      using k by simp_all
    with a have "0 \<le> r" "r < 1" by linarith+
    ultimately show "0 \<le> r \<and> r < 1 \<and> baseDelay r = k" by simp
  qed
  show ?thesis
  proof (rule set_eqI)
    fix r
    show "r \<in> {r. 0 \<le> r \<and> r < 1 \<and> baseDelay r = k} \<longleftrightarrow>
          r \<in> {real_of_int k / 16 ..< (real_of_int k + 1) / 16}"
      using iff [of r] by (simp only: mem_Collect_eq atLeastLessThan_iff)
  qed
qed

lemma simulatedDelay_values:
  assumes "0 \<le> r" "r < 1"
  shows "simulatedDelay r = 0 \<or> (5 \<le> simulatedDelay r \<and> simulatedDelay r \<le> 15)"
  using baseDelay_range [OF assms] by (simp add: simulatedDelay_def)

lemma simulateStop_data:
  "\<exists>x. body (fst (simulateStop rt stop i)) = Data x \<and>
       stop_data.cancelled x = (random rt (i + 1) < 5 / 100) \<and>
       stop_data.delayMinutes x =
         (if random rt (i + 1) < 5 / 100 then 0 else simulatedDelay (random rt i)) \<and>
       stop_data.status x =
         (if random rt (i + 1) < 5 / 100 then ''cancelled''
          else getDelayStatus (simulatedDelay (random rt i)))"
  by (simp add: simulateStop_def Let_def)

lemma simulateStops_elem:
  assumes "d \<in> set (simulateStops rt stops i)"
  shows "\<exists>stop j. d = fst (simulateStop rt stop j)"
  using assms
proof (induction stops arbitrary: i)
  case Nil
  then show ?case by simp
next
  case (Cons stop stops)
  obtain snap j where step: "simulateStop rt stop i = (snap, j)"
    by (cases "simulateStop rt stop i")
  with Cons.prems have "d = snap \<or> d \<in> set (simulateStops rt stops j)"
    by simp
  then show ?case
  proof
    assume "d = snap"
    with step have "d = fst (simulateStop rt stop i)" by simp
    then show ?thesis by blast
  next
    assume "d \<in> set (simulateStops rt stops j)"
    then show ?thesis by (rule Cons.IH)
  qed
qed

text \<open>One round of the generator: the snapshot, and the draws the next round starts at.\<close>

lemma simulateStops_Cons:
  "simulateStops rt (stop # stops) i =
     fst (simulateStop rt stop i) #
     simulateStops rt stops
       (if stop.order stop = 1 \<or> stop.order stop = 7 then i + 3 else i + 2)"
  by (simp add: simulateStop_def Let_def)

text \<open>
  The seven snapshots are those of \<open>simulateStop\<close> at the draws 0, 3, 5, 7, 9, 11 and 13:
  the first stop takes three draws, the inner stops two each.
\<close>

lemma generateSimulatedData_rounds:
  "generateSimulatedData rt =
     map (\<lambda>(stop, i). fst (simulateStop rt stop i)) (zip R7_STOPS [0, 3, 5, 7, 9, 11, 13])"
  by (simp add: generateSimulatedData_def R7_STOPS_def simulateStops_Cons
      del: simulateStops.simps(2))

lemma generateSimulatedData_draws:
  "map reported (generateSimulatedData rt) =
     map (\<lambda>i. Some (random rt (i + 1) < 5 / 100,
                     if random rt (i + 1) < 5 / 100 then 0
                     else if \<lfloor>random rt i * 16\<rfloor> < 5 then 0 else \<lfloor>random rt i * 16\<rfloor>,
                     if random rt (i + 1) < 5 / 100 then ''cancelled''
                     else getDelayStatus
                            (if \<lfloor>random rt i * 16\<rfloor> < 5 then 0 else \<lfloor>random rt i * 16\<rfloor>)))
       [0, 3, 5, 7, 9, 11, 13]"
  by (simp add: generateSimulatedData_def R7_STOPS_def simulateStop_def reported_def
      simulatedDelay_def baseDelay_def Let_def)

text \<open>
  C6. In the synthetic generator the base draw \<open>floor(Math.random() * 16)\<close> lies in
  \<open>{0..15}\<close>, each value the image of a draw interval of the same length 1/16 (it is
  uniform when \<open>Math.random()\<close> is), and collapses to 0 when below 5, so that the delay of
  a stop that is not cancelled is 0 or in \<open>{5..15}\<close>. The snapshots of
  \<open>generateSimulatedData\<close> are those of the seven stops, in order, each from its own two
  successive draws: the stop is cancelled exactly when its second draw is below 0.05; then
  \<open>delayMinutes\<close> is 0 whatever the base draw and the status is "cancelled"; otherwise
  \<open>delayMinutes\<close> is the collapsed base draw and the status its classification. So, for
  draws in \<open>[0, 1)\<close>, every snapshot has delay 0 and status "cancelled" when cancelled,
  and else a delay that is 0 or in \<open>{5..15}\<close> with the status that classifies it.
\<close>

theorem generateSimulatedData_delays:
  "(0 \<le> r \<and> r < 1 \<longrightarrow>
      baseDelay r = \<lfloor>r * 16\<rfloor> \<and> baseDelay r \<in> {0..15} \<and>
      simulatedDelay r = (if baseDelay r < 5 then 0 else baseDelay r) \<and>
      (simulatedDelay r = 0 \<or> simulatedDelay r \<in> {5..15})) \<and>
   (k \<in> {0..15} \<longrightarrow>
      {r. 0 \<le> r \<and> r < 1 \<and> baseDelay r = k} =
      {real_of_int k / 16 ..< (real_of_int k + 1) / 16}) \<and>
   generateSimulatedData rt =
     map (\<lambda>(stop, i). fst (simulateStop rt stop i)) (zip R7_STOPS [0, 3, 5, 7, 9, 11, 13]) \<and>
   (\<exists>x. body (fst (simulateStop rt stop i)) = Data x \<and>
        stop_data.cancelled x = (random rt (i + 1) < 5 / 100) \<and>
        stop_data.delayMinutes x =
          (if random rt (i + 1) < 5 / 100 then 0 else simulatedDelay (random rt i)) \<and>
        stop_data.status x =
          (if random rt (i + 1) < 5 / 100 then ''cancelled''
           else getDelayStatus (simulatedDelay (random rt i)))) \<and>
   map reported (generateSimulatedData rt) =
     map (\<lambda>i. Some (random rt (i + 1) < 5 / 100,
                     if random rt (i + 1) < 5 / 100 then 0
                     else if \<lfloor>random rt i * 16\<rfloor> < 5 then 0 else \<lfloor>random rt i * 16\<rfloor>,
                     if random rt (i + 1) < 5 / 100 then ''cancelled''
                     else getDelayStatus
                            (if \<lfloor>random rt i * 16\<rfloor> < 5 then 0 else \<lfloor>random rt i * 16\<rfloor>)))
       [0, 3, 5, 7, 9, 11, 13] \<and>
   ((\<forall>n. 0 \<le> random rt n \<and> random rt n < 1) \<longrightarrow>
      (\<forall>d \<in> set (generateSimulatedData rt).
         \<exists>x. body d = Data x \<and>
             (if stop_data.cancelled x
              then stop_data.delayMinutes x = 0 \<and> stop_data.status x = ''cancelled''
              else (stop_data.delayMinutes x = 0 \<or> stop_data.delayMinutes x \<in> {5..15}) \<and>
                   stop_data.status x = getDelayStatus (stop_data.delayMinutes x))))"
proof -
  have draw: "0 \<le> r \<and> r < 1 \<longrightarrow>
      baseDelay r = \<lfloor>r * 16\<rfloor> \<and> baseDelay r \<in> {0..15} \<and>
      simulatedDelay r = (if baseDelay r < 5 then 0 else baseDelay r) \<and>
      (simulatedDelay r = 0 \<or> simulatedDelay r \<in> {5..15})"
    using baseDelay_range [of r] simulatedDelay_values [of r]
    by (simp add: simulatedDelay_def) (simp add: baseDelay_def)
  have uniform: "k \<in> {0..15} \<longrightarrow>
      {r. 0 \<le> r \<and> r < 1 \<and> baseDelay r = k} =
      {real_of_int k / 16 ..< (real_of_int k + 1) / 16}"
  proof
    assume "k \<in> {0..15}"
    then have "0 \<le> k" "k \<le> 15" by simp_all
    then show "{r. 0 \<le> r \<and> r < 1 \<and> baseDelay r = k} =
      {real_of_int k / 16 ..< (real_of_int k + 1) / 16}"
      by (rule baseDelay_preimage)
  qed
  have every: "(\<forall>n. 0 \<le> random rt n \<and> random rt n < 1) \<longrightarrow>
      (\<forall>d \<in> set (generateSimulatedData rt).
         \<exists>x. body d = Data x \<and>
             (if stop_data.cancelled x
              then stop_data.delayMinutes x = 0 \<and> stop_data.status x = ''cancelled''
              else (stop_data.delayMinutes x = 0 \<or> stop_data.delayMinutes x \<in> {5..15}) \<and>
                   stop_data.status x = getDelayStatus (stop_data.delayMinutes x)))"
  proof (intro impI ballI)
    fix d
    assume rnd: "\<forall>n. 0 \<le> random rt n \<and> random rt n < 1"
      and d: "d \<in> set (generateSimulatedData rt)"
    from d obtain stop j where "d = fst (simulateStop rt stop j)"
      unfolding generateSimulatedData_def by (blast dest: simulateStops_elem)
    with simulateStop_data [of rt stop j] obtain x where
      x: "body d = Data x"
        "stop_data.cancelled x = (random rt (j + 1) < 5 / 100)"
        "stop_data.delayMinutes x =
           (if random rt (j + 1) < 5 / 100 then 0 else simulatedDelay (random rt j))"
        "stop_data.status x =
           (if random rt (j + 1) < 5 / 100 then ''cancelled''
            else getDelayStatus (simulatedDelay (random rt j)))"
      by auto
    from rnd have "0 \<le> random rt j" "random rt j < 1" by simp_all
    from simulatedDelay_values [OF this] x
    show "\<exists>x. body d = Data x \<and>
             (if stop_data.cancelled x
              then stop_data.delayMinutes x = 0 \<and> stop_data.status x = ''cancelled''
              else (stop_data.delayMinutes x = 0 \<or> stop_data.delayMinutes x \<in> {5..15}) \<and>
                   stop_data.status x = getDelayStatus (stop_data.delayMinutes x))"
      by simp
  qed
  show ?thesis
    using draw uniform generateSimulatedData_rounds [of rt] simulateStop_data [of rt stop i]
      generateSimulatedData_draws [of rt] every
    by (intro conjI)
qed

lemma random_varied: "\<forall>n. 0 \<le> random varied_runtime n \<and> random varied_runtime n < 1"
proof
  fix n
  have all: "\<forall>x \<in> set varied_draws. 0 \<le> x \<and> x < 1"
    by (simp add: varied_draws_def)
  show "0 \<le> random varied_runtime n \<and> random varied_runtime n < 1"
  proof (cases "n < 16")
    case True
    moreover have "length varied_draws = 16"
      by (simp add: varied_draws_def)
    ultimately have "varied_draws ! n \<in> set varied_draws"
      by (metis nth_mem)
    with all True show ?thesis
      by (simp add: varied_runtime_def)
  next
    case False
    then show ?thesis by (simp add: varied_runtime_def)
  qed
qed

lemma draws_varied:
  "map (\<lambda>i. Some (random varied_runtime (i + 1) < 5 / 100,
                     if random varied_runtime (i + 1) < 5 / 100 then 0
                     else if \<lfloor>random varied_runtime i * 16\<rfloor> < 5 then 0
                          else \<lfloor>random varied_runtime i * 16\<rfloor>,
                     if random varied_runtime (i + 1) < 5 / 100 then ''cancelled''
                     else getDelayStatus
                            (if \<lfloor>random varied_runtime i * 16\<rfloor> < 5 then 0
                             else \<lfloor>random varied_runtime i * 16\<rfloor>)))
       [0, 3, 5, 7, 9, 11, 13] =
     [Some (False, 0, ''on-time''), Some (False, 11, ''heavily-delayed''),
      Some (True, 0, ''cancelled''), Some (False, 5, ''slight-delay''),
      Some (False, 0, ''on-time''), Some (False, 8, ''delayed''),
      Some (True, 0, ''cancelled'')]"
  by code_simp

theorem generateSimulatedData_delays_witness:
  "(0::real) \<le> 3 / 16 \<and> (3 / 16 :: real) < 1 \<and>
   baseDelay (3 / 16) = 3 \<and> simulatedDelay (3 / 16) = 0 \<and>
   (0::real) \<le> 11 / 16 \<and> (11 / 16 :: real) < 1 \<and>
   baseDelay (11 / 16) = 11 \<and> simulatedDelay (11 / 16) = 11 \<and>
   (3::int) \<in> {0..15} \<and>
   {r. 0 \<le> r \<and> r < 1 \<and> baseDelay r = 3} = {3 / 16 ..< 4 / 16} \<and>
   (\<forall>n. 0 \<le> random varied_runtime n \<and> random varied_runtime n < 1) \<and>
   map reported (generateSimulatedData varied_runtime) =
     [Some (False, 0, ''on-time''), Some (False, 11, ''heavily-delayed''),
      Some (True, 0, ''cancelled''), Some (False, 5, ''slight-delay''),
      Some (False, 0, ''on-time''), Some (False, 8, ''delayed''),
      Some (True, 0, ''cancelled'')] \<and>
   list_all
     (\<lambda>d. \<exists>x. body d = Data x \<and>
            (if stop_data.cancelled x
             then stop_data.delayMinutes x = 0 \<and> stop_data.status x = ''cancelled''
             else (stop_data.delayMinutes x = 0 \<or> stop_data.delayMinutes x \<in> {5..15}) \<and>
                  stop_data.status x = getDelayStatus (stop_data.delayMinutes x)))
     (generateSimulatedData varied_runtime)"
proof -
  note low = generateSimulatedData_delays [of "3 / 16" 3 varied_runtime "hd R7_STOPS" 0]
  note high = generateSimulatedData_delays [of "11 / 16" 3 varied_runtime "hd R7_STOPS" 0]
  have r3: "(0::real) \<le> 3 / 16 \<and> (3 / 16 :: real) < 1" by simp
  have r11: "(0::real) \<le> 11 / 16 \<and> (11 / 16 :: real) < 1" by simp
  have k: "(3::int) \<in> {0..15}" by simp
  from low r3 have b3: "baseDelay (3 / 16) = 3" by simp
  from low r3 b3 have d3: "simulatedDelay (3 / 16) = 0" by simp
  from high r11 have b11: "baseDelay (11 / 16) = 11" by simp
  from high r11 b11 have d11: "simulatedDelay (11 / 16) = 11" by simp
  from low k have u: "{r. 0 \<le> r \<and> r < 1 \<and> baseDelay r = 3} = {3 / 16 ..< 4 / 16}"
    by simp
  from low have "map reported (generateSimulatedData varied_runtime) =
     map (\<lambda>i. Some (random varied_runtime (i + 1) < 5 / 100,
                     if random varied_runtime (i + 1) < 5 / 100 then 0
                     else if \<lfloor>random varied_runtime i * 16\<rfloor> < 5 then 0
                          else \<lfloor>random varied_runtime i * 16\<rfloor>,
                     if random varied_runtime (i + 1) < 5 / 100 then ''cancelled''
                     else getDelayStatus
                            (if \<lfloor>random varied_runtime i * 16\<rfloor> < 5 then 0
                             else \<lfloor>random varied_runtime i * 16\<rfloor>)))
       [0, 3, 5, 7, 9, 11, 13]"
    by blast
  with draws_varied have m: "map reported (generateSimulatedData varied_runtime) =
     [Some (False, 0, ''on-time''), Some (False, 11, ''heavily-delayed''),
      Some (True, 0, ''cancelled''), Some (False, 5, ''slight-delay''),
      Some (False, 0, ''on-time''), Some (False, 8, ''delayed''),
      Some (True, 0, ''cancelled'')]"
    by (simp only:)
  from low random_varied have
    "\<forall>d \<in> set (generateSimulatedData varied_runtime).
       \<exists>x. body d = Data x \<and>
            (if stop_data.cancelled x
             then stop_data.delayMinutes x = 0 \<and> stop_data.status x = ''cancelled''
             else (stop_data.delayMinutes x = 0 \<or> stop_data.delayMinutes x \<in> {5..15}) \<and>
                  stop_data.status x = getDelayStatus (stop_data.delayMinutes x))"
    by blast
  then have l: "list_all
     (\<lambda>d. \<exists>x. body d = Data x \<and>
            (if stop_data.cancelled x
             then stop_data.delayMinutes x = 0 \<and> stop_data.status x = ''cancelled''
             else (stop_data.delayMinutes x = 0 \<or> stop_data.delayMinutes x \<in> {5..15}) \<and>
                  stop_data.status x = getDelayStatus (stop_data.delayMinutes x)))
     (generateSimulatedData varied_runtime)"
    by (simp only: list_all_iff)
  from r3 r11 k b3 d3 b11 d11 u m l random_varied show ?thesis
    by blast
qed

end
